theory Spec2Isabelle
  imports Main "HOL-Library.List_Lexorder"
begin

chapter \<open>WhatBeats: the browser client and the session, resolution and moderation core\<close>

text \<open>
  The repository ships the browser client (\<^verbatim>\<open>frontend/app.js\<close>, \<^verbatim>\<open>frontend/admin.js\<close>,
  the API service \<^verbatim>\<open>api.js\<close>) and an integration test. The FastAPI backend that the client
  talks to is not among the sources; the parts of it that a property depends on are modelled
  from the specification and marked as such.

  Asynchronous functions are modelled as state transformers over the pair of client state and
  backend state; a call through \<^verbatim>\<open>apiService\<close> is a call of the backend model whose result is
  either an axios error or the response body. The listing endpoint of the dashboard is not
  modelled: the reply to a listing request is a parameter of the function that awaits it.
  DOM updates that no later decision reads (text contents, CSS classes, emoji glyphs,
  timestamps) are left out.
\<close>

section \<open>JavaScript strings\<close>

text \<open>
  A JavaScript string is a sequence of UTF-16 code units; \<^verbatim>\<open>length\<close> counts code units.
  Code units are natural numbers below 65536.
\<close>

type_synonym jsstring = "nat list"

definition js :: "string \<Rightarrow> jsstring" where
  "js s = map of_char s"

text \<open>
  ECMAScript \<^verbatim>\<open>WhiteSpace\<close> and \<^verbatim>\<open>LineTerminator\<close> code units: what \<^verbatim>\<open>\s\<close> matches in a
  regular expression and what \<^verbatim>\<open>String.prototype.trim\<close> strips.
\<close>

definition isWhiteSpace :: "nat \<Rightarrow> bool" where
  "isWhiteSpace c \<longleftrightarrow>
     c = 9 \<or> c = 10 \<or> c = 11 \<or> c = 12 \<or> c = 13 \<or> c = 32 \<or> c = 160 \<or> c = 5760
     \<or> (8192 \<le> c \<and> c \<le> 8202)
     \<or> c = 8232 \<or> c = 8233 \<or> c = 8239 \<or> c = 8287 \<or> c = 12288 \<or> c = 65279"

definition trim :: "jsstring \<Rightarrow> jsstring" where
  "trim s = rev (dropWhile isWhiteSpace (rev (dropWhile isWhiteSpace s)))"

definition isUpperAscii :: "nat \<Rightarrow> bool" where
  "isUpperAscii c \<longleftrightarrow> 65 \<le> c \<and> c \<le> 90"

definition isLowerAscii :: "nat \<Rightarrow> bool" where
  "isLowerAscii c \<longleftrightarrow> 97 \<le> c \<and> c \<le> 122"

definition isDigit :: "nat \<Rightarrow> bool" where
  "isDigit c \<longleftrightarrow> 48 \<le> c \<and> c \<le> 57"

text \<open>The punctuation \<^verbatim>\<open>. , ! ? -\<close>.\<close>

definition isPunct :: "nat \<Rightarrow> bool" where
  "isPunct c \<longleftrightarrow> c = 46 \<or> c = 44 \<or> c = 33 \<or> c = 63 \<or> c = 45"

section \<open>Input validation (app.js, validateUserInputBeforeSubmit)\<close>

text \<open>The character class \<^verbatim>\<open>[a-zA-Z0-9\s.,!?-]\<close>; the trailing \<^verbatim>\<open>-\<close> is a literal.\<close>

definition inClass :: "nat \<Rightarrow> bool" where
  "inClass c \<longleftrightarrow> isLowerAscii c \<or> isUpperAscii c \<or> isDigit c \<or> isWhiteSpace c
     \<or> c = 46 \<or> c = 44 \<or> c = 33 \<or> c = 63 \<or> c = 45"

text \<open>
  \<^verbatim>\<open>/^[a-zA-Z0-9\s.,!?-]+$/.test(s)\<close>: without the \<^verbatim>\<open>m\<close> flag the anchors are the two
  ends of the input, so the test holds when \<open>s\<close> is one or more class characters.
\<close>

definition charsetTest :: "jsstring \<Rightarrow> bool" where
  "charsetTest s \<longleftrightarrow> s \<noteq> [] \<and> list_all inClass s"

text \<open>
  Case-insensitive matching (flag \<^verbatim>\<open>i\<close>, no \<^verbatim>\<open>u\<close>) compares the canonical forms of pattern
  and input characters. ECMAScript's Canonicalize upper-cases a character, and keeps the
  character itself when it is not ASCII and its upper case would be ASCII. On ASCII this is
  the function below; a non-ASCII code unit never becomes equal to the canonical form of an
  ASCII pattern character, which leaving it unchanged preserves. Every pattern character
  used here is ASCII.
\<close>

definition canonicalize :: "nat \<Rightarrow> nat" where
  "canonicalize c = (if isLowerAscii c then c - 32 else c)"

text \<open>A literal pattern matched at the start of the input, and searched at every position.\<close>

fun matchesAt :: "jsstring \<Rightarrow> jsstring \<Rightarrow> bool" where
  "matchesAt [] s = True"
| "matchesAt (p # ps) [] = False"
| "matchesAt (p # ps) (c # cs) = (canonicalize p = canonicalize c \<and> matchesAt ps cs)"

fun searchIgnoreCase :: "jsstring \<Rightarrow> jsstring \<Rightarrow> bool" where
  "searchIgnoreCase p [] = matchesAt p []"
| "searchIgnoreCase p (c # cs) = (matchesAt p (c # cs) \<or> searchIgnoreCase p cs)"

text \<open>
  The alternatives of
  \<^verbatim>\<open>/<script|javascript:|onerror=|onclick=|alert\(|eval\(|document\.cookie/i\<close>.
\<close>

definition harmfulPatterns :: "jsstring list" where
  "harmfulPatterns =
     [js ''<script'', js ''javascript:'', js ''onerror='', js ''onclick='',
      js ''alert('', js ''eval('', js ''document.cookie'']"

definition harmfulTest :: "jsstring \<Rightarrow> bool" where
  "harmfulTest s \<longleftrightarrow> list_ex (\<lambda>p. searchIgnoreCase p s) harmfulPatterns"

record validation =
  v_valid :: bool
  v_message :: "jsstring option"

definition validateUserInputBeforeSubmit :: "jsstring \<Rightarrow> validation" where
  "validateUserInputBeforeSubmit userInput =
     (if length userInput > 50 then
        \<lparr>v_valid = False, v_message = Some (js ''Input too long (max 50 characters)'')\<rparr>
      else if \<not> charsetTest userInput then
        \<lparr>v_valid = False, v_message = Some (js ''Input contains invalid characters'')\<rparr>
      else if harmfulTest userInput then
        \<lparr>v_valid = False, v_message = Some (js ''Input contains potentially harmful content'')\<rparr>
      else \<lparr>v_valid = True, v_message = None\<rparr>)"

text \<open>
  The validator as the documentation words it: a non-empty string of at most 50
  characters, made of ASCII letters, digits, white space and the punctuation
  \<^verbatim>\<open>. , ! ? -\<close>, that does not contain \<^verbatim>\<open>document.cookie\<close> in any mix of cases.
\<close>

definition toLowerAscii :: "nat \<Rightarrow> nat" where
  "toLowerAscii c = (if isUpperAscii c then c + 32 else c)"

definition containsIgnoringCase :: "jsstring \<Rightarrow> jsstring \<Rightarrow> bool" where
  "containsIgnoringCase p s \<longleftrightarrow>
     list_ex (\<lambda>i. map toLowerAscii (take (length p) (drop i s)) = map toLowerAscii p)
       [0 ..< Suc (length s)]"

definition acceptableInput :: "jsstring \<Rightarrow> bool" where
  "acceptableInput s \<longleftrightarrow>
     s \<noteq> [] \<and> length s \<le> 50
     \<and> list_all (\<lambda>c. isLowerAscii c \<or> isUpperAscii c \<or> isDigit c \<or> isWhiteSpace c \<or> isPunct c) s
     \<and> \<not> containsIgnoringCase (js ''document.cookie'') s"

section \<open>Errors of the API service (api.js, handleError)\<close>

text \<open>
  An axios error carries the server's response (status and body) when one arrived, and
  otherwise says whether the request was sent at all. Of the body, \<^verbatim>\<open>detail\<close> and
  \<^verbatim>\<open>code\<close> are read.
\<close>

record errorData =
  ed_detail :: "jsstring option"
  ed_code :: "jsstring option"

record errorResponse =
  er_status :: nat
  er_data :: errorData

record axiosError =
  ax_response :: "errorResponse option"
  ax_request :: bool

text \<open>The \<^verbatim>\<open>Error\<close> object the service throws: its message and the optional \<^verbatim>\<open>code\<close>.\<close>

record clientError =
  ce_message :: jsstring
  ce_code :: "jsstring option"

text \<open>\<^verbatim>\<open>x || d\<close> on an optional string: the empty string and \<^verbatim>\<open>undefined\<close> are falsy.\<close>

definition orDefault :: "jsstring option \<Rightarrow> jsstring \<Rightarrow> jsstring" where
  "orDefault x d = (case x of None \<Rightarrow> d | Some s \<Rightarrow> if s = [] then d else s)"

definition handleError :: "axiosError \<Rightarrow> clientError" where
  "handleError error =
     (case ax_response error of
        Some response \<Rightarrow>
          (let message = orDefault (ed_detail (er_data response)) (js ''An error occurred'')
           in if er_status response = 422
                 \<and> ed_code (er_data response) = Some (js ''ITEM_ALREADY_USED'')
              then \<lparr>ce_message = message, ce_code = Some (js ''ITEM_ALREADY_USED'')\<rparr>
              else \<lparr>ce_message = message, ce_code = None\<rparr>)
      | None \<Rightarrow>
          (if ax_request error then
             \<lparr>ce_message = js ''No response from server. Please check your connection.'',
              ce_code = None\<rparr>
           else
             \<lparr>ce_message = js ''Error setting up request. Please try again.'',
              ce_code = None\<rparr>))"

section \<open>The backend core, from the specification\<close>

text \<open>
  The backend's source is not part of the repository's files; the definitions of this
  section follow the specification. The oracle is a parameter: \<open>judge current candidate\<close>
  is \<open>None\<close> when the call fails or times out and a verdict otherwise. The resolution
  coordinator is modelled for one caller at a time; the number of oracle invocations is
  counted in the state.
\<close>

subsection \<open>Comparison store\<close>

text \<open>
  Modelled from the spec: the ComparisonRecord of the data model, absent from the sources:
  the winning item, a description, an emoji, the usage count and the corrected flag. The
  time stamp of the last change is left out.
\<close>

record comparisonRecord =
  cr_winner :: jsstring
  cr_description :: jsstring
  cr_emoji :: jsstring
  cr_usageCount :: nat
  cr_corrected :: bool

type_synonym pairKey = "jsstring \<times> jsstring"

type_synonym comparisonStore = "pairKey \<rightharpoonup> comparisonRecord"

text \<open>
  Modelled from the spec: the normalisation of an item in the Comparison Store, absent
  from the sources: trimmed and compared without regard to case. Items reach the backend
  through the client's validation gate, whose letters are ASCII, so lower-casing the
  ASCII letters is all that case-insensitivity asks for.
\<close>

definition normalizeItem :: "jsstring \<Rightarrow> jsstring" where
  "normalizeItem s = map toLowerAscii (trim s)"

text \<open>
  Modelled from the spec: the key of a pair in the Comparison Store, absent from the
  sources: the two normalised items in lexicographic order.
\<close>

definition normalizePair :: "jsstring \<Rightarrow> jsstring \<Rightarrow> pairKey" where
  "normalizePair a b =
     (let a' = normalizeItem a; b' = normalizeItem b
      in if a' \<le> b' then (a', b') else (b', a'))"

text \<open>Modelled from the spec: \<^verbatim>\<open>get\<close> of the Comparison Store, absent from the sources.\<close>

definition storeGet :: "comparisonStore \<Rightarrow> jsstring \<Rightarrow> jsstring \<Rightarrow> comparisonRecord option" where
  "storeGet st a b = st (normalizePair a b)"

text \<open>
  Modelled from the spec: \<^verbatim>\<open>put\<close> of the Comparison Store, absent from the sources. It
  creates the record when there is none (used once), else increments the usage count and
  leaves the rest.
\<close>

definition storePut ::
  "comparisonStore \<Rightarrow> jsstring \<Rightarrow> jsstring \<Rightarrow> jsstring \<Rightarrow> jsstring \<Rightarrow> jsstring
     \<Rightarrow> comparisonRecord \<times> comparisonStore" where
  "storePut st a b winner description emoji =
     (let k = normalizePair a b;
          r = (case st k of
                 None \<Rightarrow> \<lparr>cr_winner = normalizeItem winner, cr_description = description,
                           cr_emoji = emoji, cr_usageCount = 1, cr_corrected = False\<rparr>
               | Some old \<Rightarrow> old\<lparr>cr_usageCount := cr_usageCount old + 1\<rparr>)
      in (r, st(k \<mapsto> r)))"

text \<open>
  Modelled from the spec: \<^verbatim>\<open>correct\<close> of the Comparison Store, absent from the sources.
  It overwrites winner, description and emoji, sets the corrected flag and keeps the usage
  count; on a pair without a record it creates one.
\<close>

definition storeCorrect ::
  "comparisonStore \<Rightarrow> jsstring \<Rightarrow> jsstring \<Rightarrow> jsstring \<Rightarrow> jsstring \<Rightarrow> jsstring
     \<Rightarrow> comparisonRecord \<times> comparisonStore" where
  "storeCorrect st a b winner description emoji =
     (let k = normalizePair a b;
          r = \<lparr>cr_winner = normalizeItem winner, cr_description = description,
               cr_emoji = emoji,
               cr_usageCount = (case st k of None \<Rightarrow> 0 | Some old \<Rightarrow> cr_usageCount old),
               cr_corrected = True\<rparr>
      in (r, st(k \<mapsto> r)))"

subsection \<open>Sessions, reports and the backend state\<close>

text \<open>
  Modelled from the spec: GameSession, HighScoreEntry and Report of the data model and the
  state of the backend, absent from the sources. Session identifiers are numbers handed
  out in sequence; creation time stamps are left out. The state counts the oracle
  invocations made so far.
\<close>

record gameSession =
  gs_currentItem :: jsstring
  gs_score :: nat
  gs_usedItems :: "jsstring list"
  gs_active :: bool

record highScoreEntry =
  hs_score :: nat
  hs_chain :: "jsstring list"

datatype reportStatus = Pending | Reviewed | Approved | Rejected

record report =
  rp_item1 :: jsstring
  rp_item2 :: jsstring
  rp_session :: nat
  rp_reason :: "jsstring option"
  rp_status :: reportStatus

record backend =
  store :: comparisonStore
  sessions :: "nat \<rightharpoonup> gameSession"
  nextSession :: nat
  oracleCalls :: nat
  highScores :: "highScoreEntry list"
  reports :: "jsstring \<rightharpoonup> report"

text \<open>
  Modelled from the spec: the error taxonomy, absent from the sources: an invalid turn
  (item already used, session not active), an unknown session or report, a transient
  oracle failure, an illegal status transition, and a malformed request.
\<close>

datatype coreError =
  ItemAlreadyUsed | SessionNotActive | NotFound | OracleTransient
  | InvalidTransition | InvalidRequest

subsection \<open>Resolution coordinator\<close>

text \<open>
  Modelled from the spec: the verdict of the consumed capability \<^verbatim>\<open>judge\<close>, the
  capability itself as a function that may fail, and the result of \<^verbatim>\<open>resolve\<close>; all
  absent from the sources.
\<close>

record oracleVerdict =
  ov_winnerIsCandidate :: bool
  ov_description :: jsstring
  ov_emoji :: jsstring

type_synonym judgeFn = "jsstring \<Rightarrow> jsstring \<Rightarrow> oracleVerdict option"

record resolution =
  rs_candidateWins :: bool
  rs_description :: jsstring
  rs_emoji :: jsstring
  rs_usageCount :: nat
  rs_corrected :: bool

text \<open>
  Modelled from the spec: the reframing of a stored record for the question whether the
  candidate beats the current item, absent from the sources. A record whose winner is not
  strictly the candidate is a non-beat.
\<close>

definition reframe :: "comparisonRecord \<Rightarrow> jsstring \<Rightarrow> jsstring \<Rightarrow> resolution" where
  "reframe r current candidate =
     \<lparr>rs_candidateWins =
        (cr_winner r = normalizeItem candidate \<and> cr_winner r \<noteq> normalizeItem current),
      rs_description = cr_description r, rs_emoji = cr_emoji r,
      rs_usageCount = cr_usageCount r, rs_corrected = cr_corrected r\<rparr>"

text \<open>
  Modelled from the spec: \<^verbatim>\<open>resolve\<close> of the Resolution Coordinator, absent from the
  sources, for one caller at a time. A stored record is a hit: its usage count is
  incremented and no oracle call is made. A miss invokes the oracle once; a failed call
  writes nothing and surfaces a transient error.
\<close>

definition resolve ::
  "judgeFn \<Rightarrow> backend \<Rightarrow> jsstring \<Rightarrow> jsstring \<Rightarrow> (coreError + resolution) \<times> backend" where
  "resolve judge b current candidate =
     (case storeGet (store b) current candidate of
        Some old \<Rightarrow>
          (let r = old\<lparr>cr_usageCount := cr_usageCount old + 1\<rparr>
           in (Inr (reframe r current candidate),
               b\<lparr>store := (store b)(normalizePair current candidate \<mapsto> r)\<rparr>))
      | None \<Rightarrow>
          (case judge current candidate of
             None \<Rightarrow> (Inl OracleTransient, b\<lparr>oracleCalls := oracleCalls b + 1\<rparr>)
           | Some v \<Rightarrow>
               (let (r, st') =
                      storePut (store b) current candidate
                        (if ov_winnerIsCandidate v then candidate else current)
                        (ov_description v) (ov_emoji v)
                in (Inr (reframe r current candidate),
                    b\<lparr>store := st', oracleCalls := oracleCalls b + 1\<rparr>))))"

subsection \<open>Session engine\<close>

text \<open>
  Modelled from the spec: the bodies of the backend's responses, absent from the sources,
  under the field names by which the client reads them.
\<close>

record endGameData =
  eg_final_score :: nat
  eg_high_score :: bool
  eg_items_chain :: "jsstring list"

record comparisonResponse =
  cp_result :: bool
  cp_description :: jsstring
  cp_emoji :: jsstring
  cp_count :: nat
  cp_score :: nat
  cp_game_over :: bool
  cp_next_item :: jsstring
  cp_end_game_data :: "endGameData option"

record startResponse =
  sr_session_id :: nat
  sr_current_item :: jsstring

text \<open>Modelled from the spec: the seed item of a session, absent from the sources.\<close>

definition seedItem :: jsstring where
  "seedItem = js ''rock''"

text \<open>
  Modelled from the spec: \<^verbatim>\<open>start\<close> of the Session Engine, absent from the sources: a new
  session with the seed item, score 0, the seed as the only used item, active.
\<close>

definition startSession :: "backend \<Rightarrow> startResponse \<times> backend" where
  "startSession b =
     (let sid = nextSession b;
          ses = \<lparr>gs_currentItem = seedItem, gs_score = 0, gs_usedItems = [seedItem],
                 gs_active = True\<rparr>
      in (\<lparr>sr_session_id = sid, sr_current_item = gs_currentItem ses\<rparr>,
          b\<lparr>sessions := (sessions b)(sid \<mapsto> ses), nextSession := sid + 1\<rparr>))"

text \<open>
  Modelled from the spec: the used-item test of the Session Engine, absent from the
  sources: the input is present in the used-items list, compared case-insensitively.
\<close>

definition alreadyUsed :: "jsstring list \<Rightarrow> jsstring \<Rightarrow> bool" where
  "alreadyUsed used input \<longleftrightarrow>
     list_ex (\<lambda>u. map toLowerAscii u = map toLowerAscii input) used"

text \<open>
  Modelled from the spec: the best score recorded so far, absent from the sources; 0 when
  nothing is recorded.
\<close>

definition bestScore :: "highScoreEntry list \<Rightarrow> nat" where
  "bestScore hs = fold max (map hs_score hs) 0"

text \<open>
  Modelled from the spec: the final data of a session, absent from the sources: the final
  score, whether it exceeds the best recorded one, and the item chain. The chain sent to
  the client is the used-items list; the client appends the losing input for display.
\<close>

definition finalData :: "backend \<Rightarrow> gameSession \<Rightarrow> endGameData" where
  "finalData b ses =
     \<lparr>eg_final_score = gs_score ses,
      eg_high_score = (gs_score ses > bestScore (highScores b)),
      eg_items_chain = gs_usedItems ses\<rparr>"

text \<open>
  Modelled from the spec: the finalisation of a session, absent from the sources: the
  session becomes inactive and an entry is persisted when the score is positive.
\<close>

definition finalize :: "nat \<Rightarrow> gameSession \<Rightarrow> backend \<Rightarrow> endGameData \<times> backend" where
  "finalize sid ses b =
     (finalData b ses,
      b\<lparr>sessions := (sessions b)(sid \<mapsto> ses\<lparr>gs_active := False\<rparr>),
        highScores :=
          (if gs_score ses > 0
           then highScores b @ [\<lparr>hs_score = gs_score ses, hs_chain = gs_usedItems ses\<rparr>]
           else highScores b)\<rparr>)"

text \<open>
  Modelled from the spec: \<^verbatim>\<open>submitTurn\<close> of the Session Engine, absent from the sources.
  The turn is valid only in an active session; a used item is rejected before any
  resolution; a winning candidate extends the chain; a losing one ends the session.
\<close>

definition submitTurn ::
  "judgeFn \<Rightarrow> backend \<Rightarrow> nat option \<Rightarrow> jsstring \<Rightarrow> (coreError + comparisonResponse) \<times> backend"
  where
  "submitTurn judge b sidOpt input =
     (case sidOpt of
        None \<Rightarrow> (Inl NotFound, b)
      | Some sid \<Rightarrow>
     (case sessions b sid of
        None \<Rightarrow> (Inl NotFound, b)
      | Some ses \<Rightarrow>
          if \<not> gs_active ses then (Inl SessionNotActive, b)
          else if alreadyUsed (gs_usedItems ses) input then (Inl ItemAlreadyUsed, b)
          else
            (case resolve judge b (gs_currentItem ses) input of
               (Inl e, b1) \<Rightarrow> (Inl e, b1)
             | (Inr v, b1) \<Rightarrow>
                 if rs_candidateWins v then
                   (let ses' = ses\<lparr>gs_usedItems := gs_usedItems ses @ [input],
                                   gs_currentItem := input,
                                   gs_score := gs_score ses + 1\<rparr>
                    in (Inr \<lparr>cp_result = True, cp_description = rs_description v,
                             cp_emoji = rs_emoji v, cp_count = rs_usageCount v,
                             cp_score = gs_score ses', cp_game_over = False,
                             cp_next_item = input, cp_end_game_data = None\<rparr>,
                        b1\<lparr>sessions := (sessions b1)(sid \<mapsto> ses')\<rparr>))
                 else
                   (let (egd, b2) = finalize sid ses b1
                    in (Inr \<lparr>cp_result = False, cp_description = rs_description v,
                             cp_emoji = rs_emoji v, cp_count = rs_usageCount v,
                             cp_score = gs_score ses, cp_game_over = True,
                             cp_next_item = gs_currentItem ses,
                             cp_end_game_data = Some egd\<rparr>,
                        b2)))))"

text \<open>
  Modelled from the spec: \<^verbatim>\<open>end\<close> of the Session Engine, absent from the sources. An
  active session is finalised; for a session that has ended already the final data are
  reported again and nothing is written.
\<close>

definition endSession :: "backend \<Rightarrow> nat option \<Rightarrow> (coreError + endGameData) \<times> backend" where
  "endSession b sidOpt =
     (case sidOpt of
        None \<Rightarrow> (Inl NotFound, b)
      | Some sid \<Rightarrow>
     (case sessions b sid of
        None \<Rightarrow> (Inl NotFound, b)
      | Some ses \<Rightarrow>
          if gs_active ses then (let (egd, b') = finalize sid ses b in (Inr egd, b'))
          else (Inr (finalData b ses), b)))"

subsection \<open>Moderation workflow\<close>

text \<open>
  Modelled from the spec: \<^verbatim>\<open>correctComparison\<close> of the Moderation Workflow, absent from
  the sources: it delegates to the store's \<^verbatim>\<open>correct\<close> and touches no report.
\<close>

definition correctComparison ::
  "backend \<Rightarrow> jsstring \<Rightarrow> jsstring \<Rightarrow> jsstring \<Rightarrow> jsstring \<Rightarrow> jsstring
     \<Rightarrow> comparisonRecord \<times> backend" where
  "correctComparison b itemA itemB winner description emoji =
     (let (r, st') = storeCorrect (store b) itemA itemB winner description emoji
      in (r, b\<lparr>store := st'\<rparr>))"

text \<open>
  Modelled from the spec: the terminal statuses of a report, absent from the sources.
\<close>

definition isTerminal :: "reportStatus \<Rightarrow> bool" where
  "isTerminal s \<longleftrightarrow> s = Approved \<or> s = Rejected"

text \<open>
  Modelled from the spec: \<^verbatim>\<open>setReportStatus\<close> of the Moderation Workflow, absent from the
  sources: any transition is permitted except from a terminal status back to pending; an
  unknown report is not found.
\<close>

definition setReportStatus ::
  "backend \<Rightarrow> jsstring \<Rightarrow> reportStatus \<Rightarrow> (coreError + report) \<times> backend" where
  "setReportStatus b reportId s =
     (case reports b reportId of
        None \<Rightarrow> (Inl NotFound, b)
      | Some r \<Rightarrow>
          if isTerminal (rp_status r) \<and> s = Pending then (Inl InvalidTransition, b)
          else (let r' = r\<lparr>rp_status := s\<rparr>
                in (Inr r', b\<lparr>reports := (reports b)(reportId \<mapsto> r')\<rparr>)))"

text \<open>
  Modelled from the spec: the names of the four statuses, absent from the sources; they
  are the values of the client's filter check boxes.
\<close>

fun statusName :: "reportStatus \<Rightarrow> jsstring" where
  "statusName Pending = js ''pending''"
| "statusName Reviewed = js ''reviewed''"
| "statusName Approved = js ''approved''"
| "statusName Rejected = js ''rejected''"

text \<open>
  Modelled from the spec: the status a request names, absent from the sources; any other
  string names none.
\<close>

definition parseStatus :: "jsstring \<Rightarrow> reportStatus option" where
  "parseStatus s =
     (if s = js ''pending'' then Some Pending
      else if s = js ''reviewed'' then Some Reviewed
      else if s = js ''approved'' then Some Approved
      else if s = js ''rejected'' then Some Rejected
      else None)"

text \<open>
  Modelled from the spec: the status filter of \<^verbatim>\<open>listReports\<close>, absent from the sources:
  any subset of the statuses, the empty filter meaning all. Paging and sorting of the
  listing are not modelled.
\<close>

definition listReports :: "jsstring list \<Rightarrow> report list \<Rightarrow> report list" where
  "listReports statusFilter rs =
     filter (\<lambda>r. statusFilter = [] \<or> statusName (rp_status r) \<in> set statusFilter) rs"

subsection \<open>The HTTP surface\<close>

text \<open>
  Modelled from the spec: the typed errors as HTTP replies, absent from the sources. The
  used-item error is the status 422 with the code \<^verbatim>\<open>ITEM_ALREADY_USED\<close> that the client's
  error handler tests for; the other errors carry no code.
\<close>

fun httpStatus :: "coreError \<Rightarrow> nat" where
  "httpStatus ItemAlreadyUsed = 422"
| "httpStatus SessionNotActive = 400"
| "httpStatus NotFound = 404"
| "httpStatus OracleTransient = 503"
| "httpStatus InvalidTransition = 409"
| "httpStatus InvalidRequest = 400"

text \<open>
  Modelled from the spec: the \<^verbatim>\<open>code\<close> field of an error reply, absent from the sources.
\<close>

fun errorCode :: "coreError \<Rightarrow> jsstring option" where
  "errorCode ItemAlreadyUsed = Some (js ''ITEM_ALREADY_USED'')"
| "errorCode _ = None"

text \<open>
  Modelled from the spec: the \<^verbatim>\<open>detail\<close> field of an error reply, absent from the
  sources; the wording is of no consequence.
\<close>

fun errorDetail :: "coreError \<Rightarrow> jsstring" where
  "errorDetail ItemAlreadyUsed = js ''This item has already been used in this game''"
| "errorDetail SessionNotActive = js ''Game session is not active''"
| "errorDetail NotFound = js ''Not found''"
| "errorDetail OracleTransient = js ''The judge is unavailable, try again''"
| "errorDetail InvalidTransition = js ''Invalid status transition''"
| "errorDetail InvalidRequest = js ''Invalid request''"

text \<open>
  Modelled from the spec: the axios error that an error reply of the backend, absent from
  the sources, produces in the client: the request was sent and a response arrived.
\<close>

definition errorReply :: "coreError \<Rightarrow> axiosError" where
  "errorReply e =
     \<lparr>ax_response =
        Some \<lparr>er_status = httpStatus e,
              er_data = \<lparr>ed_detail = Some (errorDetail e), ed_code = errorCode e\<rparr>\<rparr>,
      ax_request = True\<rparr>"

text \<open>
  Modelled from the spec: the correction endpoint, absent from the sources. The client
  sends the two flags \<^verbatim>\<open>item1_wins\<close> and \<^verbatim>\<open>item2_wins\<close>; the winner must be one of
  the two items, so exactly one flag has to be set.
\<close>

definition putComparison ::
  "backend \<Rightarrow> jsstring \<Rightarrow> jsstring \<Rightarrow> bool \<Rightarrow> bool \<Rightarrow> jsstring \<Rightarrow> jsstring
     \<Rightarrow> (coreError + comparisonRecord) \<times> backend" where
  "putComparison b item1 item2 item1_wins item2_wins description emoji =
     (if item1_wins = item2_wins then (Inl InvalidRequest, b)
      else (let (r, b') =
                  correctComparison b item1 item2 (if item1_wins then item1 else item2)
                    description emoji
            in (Inr r, b')))"

text \<open>
  Modelled from the spec: the report status endpoint, absent from the sources: the status
  is named by a string.
\<close>

definition putReportStatus ::
  "backend \<Rightarrow> jsstring \<Rightarrow> jsstring \<Rightarrow> (coreError + report) \<times> backend" where
  "putReportStatus b reportId status =
     (case parseStatus status of
        None \<Rightarrow> (Inl InvalidRequest, b)
      | Some s \<Rightarrow> setReportStatus b reportId s)"

section \<open>The API service (api.js)\<close>

text \<open>
  Each method sends its request to the backend and returns the response body, or throws
  what \<^verbatim>\<open>handleError\<close> makes of the axios error (\<open>orThrow\<close> is that \<^verbatim>\<open>try\<close> and
  \<^verbatim>\<open>catch\<close>). Requests and replies are not lost on the way. The backend reads the
  session's own current item; the \<^verbatim>\<open>current_item\<close> of the request is not consulted.
\<close>

definition orThrow :: "(coreError + 'a) \<times> backend \<Rightarrow> (clientError + 'a) \<times> backend" where
  "orThrow reply =
     (case reply of
        (Inl e, b') \<Rightarrow> (Inl (handleError (errorReply e)), b')
      | (Inr data, b') \<Rightarrow> (Inr data, b'))"

definition apiService_startGame :: "backend \<Rightarrow> (clientError + startResponse) \<times> backend" where
  "apiService_startGame b = (let (r, b') = startSession b in orThrow (Inr r, b'))"

definition apiService_submitComparison ::
  "judgeFn \<Rightarrow> backend \<Rightarrow> nat option \<Rightarrow> jsstring \<Rightarrow> jsstring
     \<Rightarrow> (clientError + comparisonResponse) \<times> backend" where
  "apiService_submitComparison judge b sessionId currentItem userInput =
     orThrow (submitTurn judge b sessionId userInput)"

definition apiService_endGame ::
  "backend \<Rightarrow> nat option \<Rightarrow> (clientError + endGameData) \<times> backend" where
  "apiService_endGame b sessionId = orThrow (endSession b sessionId)"

definition apiService_updateComparison ::
  "backend \<Rightarrow> jsstring \<Rightarrow> jsstring \<Rightarrow> bool \<Rightarrow> bool \<Rightarrow> jsstring \<Rightarrow> jsstring
     \<Rightarrow> (clientError + comparisonRecord) \<times> backend" where
  "apiService_updateComparison b item1 item2 item1Wins item2Wins description emoji =
     orThrow (putComparison b item1 item2 item1Wins item2Wins description emoji)"

definition apiService_updateReportStatus ::
  "backend \<Rightarrow> jsstring \<Rightarrow> jsstring \<Rightarrow> (clientError + report) \<times> backend" where
  "apiService_updateReportStatus b reportId status =
     orThrow (putReportStatus b reportId status)"

section \<open>The game client (app.js)\<close>

record historyItem =
  hi_currentItem :: jsstring
  hi_userInput :: jsstring
  hi_result :: bool
  hi_description :: jsstring
  hi_emoji :: jsstring
  hi_count :: nat

record comparisonNote =
  lc_currentItem :: jsstring
  lc_userInput :: jsstring
  lc_result :: bool

text \<open>
  \<^verbatim>\<open>gameState\<close>. The newest history entry is first (\<^verbatim>\<open>unshift\<close>). The glyph
  \<^verbatim>\<open>currentEmoji\<close> is display data and is left out.
\<close>

record gameState =
  sessionId :: "nat option"
  currentItem :: jsstring
  score :: nat
  isActive :: bool
  history :: "historyItem list"
  usedItems :: "jsstring list"
  lastComparison :: "comparisonNote option"

definition resetGameState :: "gameState \<Rightarrow> gameState" where
  "resetGameState g =
     g\<lparr>sessionId := None, currentItem := js ''rock'', score := 0, isActive := False,
       history := [], usedItems := []\<rparr>"

datatype startEffect = GameScreen | StartFailed jsstring

definition startGame :: "gameState \<times> backend \<Rightarrow> (gameState \<times> backend) \<times> startEffect" where
  "startGame gb =
     (case gb of (g, b) \<Rightarrow>
        (let g0 = resetGameState g
         in case apiService_startGame b of
              (Inl error, b') \<Rightarrow>
                ((g0, b'), StartFailed (js ''Failed to start game: '' @ ce_message error))
            | (Inr response, b') \<Rightarrow>
                ((g0\<lparr>sessionId := Some (sr_session_id response),
                     currentItem := sr_current_item response,
                     isActive := True,
                     usedItems := [sr_current_item response]\<rparr>, b'),
                 GameScreen)))"

text \<open>
  What a submission did: it was dropped without any message, refused by the validation
  gate with an alert, sent and failed, or sent and answered.
\<close>

datatype submitEffect =
  Ignored
  | ValidationAlert "jsstring option"
  | RequestFailed clientError
  | Answered comparisonResponse

fun requestSent :: "submitEffect \<Rightarrow> bool" where
  "requestSent (RequestFailed e) = True"
| "requestSent (Answered r) = True"
| "requestSent _ = False"

text \<open>The game-over data for which \<^verbatim>\<open>handleSubmit\<close> schedules \<^verbatim>\<open>endGame\<close>.\<close>

fun scheduledEndGame :: "submitEffect \<Rightarrow> endGameData option" where
  "scheduledEndGame (Answered r) = (if cp_game_over r then cp_end_game_data r else None)"
| "scheduledEndGame _ = None"

definition handleSubmit ::
  "judgeFn \<Rightarrow> jsstring \<Rightarrow> gameState \<times> backend \<Rightarrow> (gameState \<times> backend) \<times> submitEffect" where
  "handleSubmit judge inputValue gb =
     (case gb of (g, b) \<Rightarrow>
        if \<not> isActive g then ((g, b), Ignored)
        else
          (let userInput = trim inputValue
           in if userInput = [] then ((g, b), Ignored)
              else
                (let validationResult = validateUserInputBeforeSubmit userInput
                 in if \<not> v_valid validationResult
                    then ((g, b), ValidationAlert (v_message validationResult))
                    else
                      (case apiService_submitComparison judge b (sessionId g) (currentItem g)
                              userInput of
                         (Inl error, b') \<Rightarrow> ((g, b'), RequestFailed error)
                       | (Inr response, b') \<Rightarrow>
                           (let historyItem =
                                  \<lparr>hi_currentItem = currentItem g, hi_userInput = userInput,
                                   hi_result = cp_result response,
                                   hi_description = cp_description response,
                                   hi_emoji = cp_emoji response,
                                   hi_count = cp_count response\<rparr>;
                                g1 = g\<lparr>lastComparison :=
                                         Some \<lparr>lc_currentItem = currentItem g,
                                               lc_userInput = userInput,
                                               lc_result = cp_result response\<rparr>,
                                       history := historyItem # history g,
                                       score := cp_score response\<rparr>
                            in if cp_game_over response
                               then ((g1\<lparr>isActive := False\<rparr>, b'), Answered response)
                               else ((g1\<lparr>currentItem := cp_next_item response,
                                         usedItems := usedItems g1 @ [userInput]\<rparr>, b'),
                                     Answered response))))))"

text \<open>
  Both branches of \<^verbatim>\<open>endGame\<close> build the displayed chain the same way: a copy of the
  chain received, with the input of the last comparison appended when the newest history
  entry is a failure and that input is a non-empty string.
\<close>

definition displayedChain :: "gameState \<Rightarrow> jsstring list \<Rightarrow> jsstring list" where
  "displayedChain g items_chain =
     (case history g of
        [] \<Rightarrow> items_chain
      | h # rest \<Rightarrow>
          if \<not> hi_result h then
            (case lastComparison g of
               None \<Rightarrow> items_chain
             | Some lc \<Rightarrow>
                 if lc_userInput lc \<noteq> [] then items_chain @ [lc_userInput lc]
                 else items_chain)
          else items_chain)"

datatype endEffect =
  GameOverScreen nat bool "jsstring list"
  | EndFailed jsstring

fun shownChain :: "endEffect \<Rightarrow> jsstring list option" where
  "shownChain (GameOverScreen final high chain) = Some chain"
| "shownChain (EndFailed m) = None"

definition endGame ::
  "endGameData option \<Rightarrow> gameState \<times> backend \<Rightarrow> (gameState \<times> backend) \<times> endEffect" where
  "endGame endGameData gb =
     (case gb of (g, b) \<Rightarrow>
        (case endGameData of
           Some d \<Rightarrow>
             ((g, b),
              GameOverScreen (eg_final_score d) (eg_high_score d)
                (displayedChain g (eg_items_chain d)))
         | None \<Rightarrow>
             (case apiService_endGame b (sessionId g) of
                (Inl error, b') \<Rightarrow>
                  ((g, b'), EndFailed (js ''Error ending game: '' @ ce_message error))
              | (Inr response, b') \<Rightarrow>
                  ((g, b'),
                   GameOverScreen (eg_final_score response) (eg_high_score response)
                     (displayedChain g (eg_items_chain response))))))"

section \<open>JavaScript numbers\<close>

text \<open>
  The page fields of the two pagers are JavaScript numbers, that is IEEE 754 doubles.
  They hold whole numbers (a page number, a page count, the direction \<^verbatim>\<open>-1\<close> or \<^verbatim>\<open>1\<close> of a
  button), so such a number is modelled by the integer it holds; comparisons of whole
  doubles are the comparisons of these integers. The sum of two doubles is the exact sum
  rounded to the nearest double, ties to the even significand: up to \<open>2 ^ 53\<close> in
  magnitude every integer is a double, above it only the multiples of a power of two
  with a significand of 53 bits are. \<open>None\<close> is a sum beyond the largest double, which is
  \<^verbatim>\<open>Infinity\<close> or \<^verbatim>\<open>-Infinity\<close>.
\<close>

fun bitLength :: "nat \<Rightarrow> nat" where
  "bitLength n = (if n = 0 then 0 else Suc (bitLength (n div 2)))"

declare bitLength.simps [simp del]

definition roundToDouble :: "int \<Rightarrow> int option" where
  "roundToDouble x =
     (let a = nat \<bar>x\<bar>
      in if a \<le> 2 ^ 53 then Some x
         else
           (let k = bitLength a - 53;
                q = a div 2 ^ k;
                r = a mod 2 ^ k;
                m = (if 2 * r > 2 ^ k \<or> (2 * r = 2 ^ k \<and> odd q) then q + 1 else q);
                v = m * 2 ^ k
            in if v \<ge> 2 ^ 1024 then None
               else Some (if x < 0 then - int v else int v)))"

text \<open>\<^verbatim>\<open>x + y\<close> on two whole doubles.\<close>

definition jsAdd :: "int \<Rightarrow> int \<Rightarrow> int option" where
  "jsAdd x y = roundToDouble (x + y)"

section \<open>The scoreboard pager (app.js)\<close>

record scoreboardState =
  sb_currentPage :: int
  sb_pageSize :: int
  sb_totalPages :: int
  sb_totalCount :: int
  sb_sortBy :: jsstring
  sb_sortDirection :: jsstring
  sb_minScore :: "int option"
  sb_maxScore :: "int option"
  sb_dateFrom :: "jsstring option"
  sb_dateTo :: "jsstring option"

text \<open>
  The options \<^verbatim>\<open>loadScoreboardData\<close> passes to \<^verbatim>\<open>apiService.getScoreboard\<close>, which is
  the data request of the scoreboard. The response arrives later and is handled by the
  continuation \<open>scoreboardLoaded\<close>.
\<close>

record scoreboardOptions =
  so_page :: int
  so_pageSize :: int
  so_sortBy :: jsstring
  so_sortDirection :: jsstring
  so_minScore :: "int option"
  so_maxScore :: "int option"
  so_dateFrom :: "jsstring option"
  so_dateTo :: "jsstring option"

definition loadScoreboardData :: "scoreboardState \<Rightarrow> scoreboardOptions" where
  "loadScoreboardData s =
     \<lparr>so_page = sb_currentPage s, so_pageSize = sb_pageSize s, so_sortBy = sb_sortBy s,
      so_sortDirection = sb_sortDirection s, so_minScore = sb_minScore s,
      so_maxScore = sb_maxScore s, so_dateFrom = sb_dateFrom s, so_dateTo = sb_dateTo s\<rparr>"

definition scoreboardLoaded :: "int \<Rightarrow> int \<Rightarrow> scoreboardState \<Rightarrow> scoreboardState" where
  "scoreboardLoaded total_pages total_count s =
     s\<lparr>sb_totalPages := total_pages, sb_totalCount := total_count\<rparr>"

text \<open>
  The new state and the data request issued, if any. \<^verbatim>\<open>loadScoreboardData\<close> is called
  without \<^verbatim>\<open>await\<close>: the function returns once the request is on its way. When the sum
  is \<^verbatim>\<open>Infinity\<close> or \<^verbatim>\<open>-Infinity\<close> one of the two comparisons of the guard is true.
\<close>

definition navigateScoreboardPage ::
  "int \<Rightarrow> scoreboardState \<Rightarrow> scoreboardState \<times> scoreboardOptions option" where
  "navigateScoreboardPage direction s =
     (case jsAdd (sb_currentPage s) direction of
        None \<Rightarrow> (s, None)
      | Some newPage \<Rightarrow>
          if newPage < 1 \<or> newPage > sb_totalPages s then (s, None)
          else (let s' = s\<lparr>sb_currentPage := newPage\<rparr>
                in (s', Some (loadScoreboardData s'))))"

section \<open>The admin dashboard (admin.js)\<close>

text \<open>A report as the listing shows it to the client.\<close>

record reportView =
  rv_report_id :: jsstring
  rv_item1 :: jsstring
  rv_item2 :: jsstring
  rv_status :: jsstring
  rv_result :: "jsstring option"
  rv_description :: "jsstring option"
  rv_emoji :: "jsstring option"

record adminState =
  ad_currentReportId :: "jsstring option"
  ad_currentPage :: int
  ad_pageSize :: int
  ad_totalPages :: int
  ad_statusFilters :: "jsstring list"
  ad_sortBy :: jsstring
  ad_sortDirection :: jsstring
  ad_reports :: "reportView list"
  ad_isAuthenticated :: bool

subsection \<open>The report listing request\<close>

text \<open>
  The \<^verbatim>\<open>options\<close> object of \<^verbatim>\<open>getAdminReports\<close>; a field that is not given is
  \<^verbatim>\<open>undefined\<close>.
\<close>

record adminReportsOptions =
  ao_page :: "int option"
  ao_pageSize :: "int option"
  ao_statusFilters :: "jsstring list option"
  ao_sortBy :: "jsstring option"
  ao_sortDirection :: "jsstring option"

text \<open>The query parameters; \<^verbatim>\<open>status\<close> is present only when it was set.\<close>

record adminReportsParams =
  ap_page :: int
  ap_page_size :: int
  ap_sort_by :: jsstring
  ap_sort_direction :: jsstring
  ap_status :: "jsstring option"

text \<open>\<^verbatim>\<open>n || d\<close> on an optional number: zero and \<^verbatim>\<open>undefined\<close> are falsy.\<close>

definition numOrDefault :: "int option \<Rightarrow> int \<Rightarrow> int" where
  "numOrDefault x d = (case x of None \<Rightarrow> d | Some n \<Rightarrow> if n = 0 then d else n)"

text \<open>\<^verbatim>\<open>Array.prototype.join(',')\<close>.\<close>

fun joinComma :: "jsstring list \<Rightarrow> jsstring" where
  "joinComma [] = []"
| "joinComma [x] = x"
| "joinComma (x # y # ys) = x @ 44 # joinComma (y # ys)"

definition getAdminReports :: "adminReportsOptions \<Rightarrow> adminReportsParams" where
  "getAdminReports options =
     \<lparr>ap_page = numOrDefault (ao_page options) 1,
      ap_page_size = numOrDefault (ao_pageSize options) 10,
      ap_sort_by = orDefault (ao_sortBy options) (js ''created_at''),
      ap_sort_direction = orDefault (ao_sortDirection options) (js ''desc''),
      ap_status =
        (case ao_statusFilters options of
           None \<Rightarrow> None
         | Some fs \<Rightarrow> if length fs > 0 then Some (joinComma fs) else None)\<rparr>"

text \<open>
  What the awaited call of \<^verbatim>\<open>getAdminReports\<close> gives back to \<^verbatim>\<open>loadAdminReports\<close>: the
  data of the response, or the error the service throws. The reply is the answer of the
  server to the request and is a parameter of the functions that await it.
\<close>

record adminReportsResult =
  ar_reports :: "reportView list"
  ar_total_pages :: int

type_synonym adminReportsReply = "clientError + adminReportsResult"

text \<open>
  \<^verbatim>\<open>loadAdminReports\<close>: the admin state when the function has returned, and the request
  it has issued. A result replaces the reports and the page count. An error is caught:
  the object thrown by the service is an \<^verbatim>\<open>Error\<close> without a \<^verbatim>\<open>response\<close> field, so the
  test for a 401 is false, the table shows the message and the state is as it was.
\<close>

definition loadAdminReports ::
  "adminReportsReply \<Rightarrow> adminState \<Rightarrow> adminState \<times> adminReportsParams" where
  "loadAdminReports reply st =
     (let options =
            \<lparr>ao_page = Some (ad_currentPage st), ao_pageSize = Some (ad_pageSize st),
             ao_statusFilters = Some (ad_statusFilters st), ao_sortBy = Some (ad_sortBy st),
             ao_sortDirection = Some (ad_sortDirection st)\<rparr>;
          params = getAdminReports options
      in (case reply of
            Inr result \<Rightarrow>
              (st\<lparr>ad_reports := ar_reports result, ad_totalPages := ar_total_pages result,
                  ad_isAuthenticated := True\<rparr>,
               params)
          | Inl error \<Rightarrow> (st, params)))"

text \<open>\<^verbatim>\<open>String.prototype.split\<close> at one separator character.\<close>

fun splitAt :: "nat \<Rightarrow> jsstring \<Rightarrow> jsstring list" where
  "splitAt d [] = [[]]"
| "splitAt d (c # cs) =
     (if c = d then [] # splitAt d cs
      else (case splitAt d cs of [] \<Rightarrow> [[c]] | w # ws \<Rightarrow> (c # w) # ws))"

text \<open>
  Modelled from the spec: how the listing endpoint, absent from the sources, reads the
  query: no \<^verbatim>\<open>status\<close> parameter is the empty filter, otherwise the comma-separated
  statuses are the filter.
\<close>

definition reportsForQuery :: "adminReportsParams \<Rightarrow> report list \<Rightarrow> report list" where
  "reportsForQuery q rs =
     listReports (case ap_status q of None \<Rightarrow> [] | Some s \<Rightarrow> splitAt 44 s) rs"

subsection \<open>Report pager\<close>

text \<open>
  The admin state when the function has returned, that is after the awaited
  \<^verbatim>\<open>loadAdminReports\<close>, and the request issued, if any.
\<close>

definition navigateReportsPage ::
  "int \<Rightarrow> adminReportsReply \<Rightarrow> adminState \<Rightarrow> adminState \<times> adminReportsParams option" where
  "navigateReportsPage direction reply st =
     (case jsAdd (ad_currentPage st) direction of
        None \<Rightarrow> (st, None)
      | Some newPage \<Rightarrow>
          if newPage < 1 \<or> newPage > ad_totalPages st then (st, None)
          else (let st' = st\<lparr>ad_currentPage := newPage\<rparr>;
                    (st'', params) = loadAdminReports reply st'
                in (st'', Some params)))"

subsection \<open>Status filter check boxes\<close>

text \<open>
  The five check boxes of class \<^verbatim>\<open>status-checkbox\<close> of admin.html, in document order,
  with their \<^verbatim>\<open>value\<close> attributes. On load only \<^verbatim>\<open>status-all\<close> is checked.
\<close>

datatype checkbox = StatusAll | StatusPending | StatusReviewed | StatusApproved | StatusRejected

definition statusCheckboxes :: "checkbox list" where
  "statusCheckboxes = [StatusAll, StatusPending, StatusReviewed, StatusApproved, StatusRejected]"

fun checkboxValue :: "checkbox \<Rightarrow> jsstring" where
  "checkboxValue StatusAll = []"
| "checkboxValue StatusPending = js ''pending''"
| "checkboxValue StatusReviewed = js ''reviewed''"
| "checkboxValue StatusApproved = js ''approved''"
| "checkboxValue StatusRejected = js ''rejected''"

type_synonym checked = "checkbox \<Rightarrow> bool"

definition initialChecked :: checked where
  "initialChecked c = (c = StatusAll)"

definition initialAdminState :: adminState where
  "initialAdminState =
     \<lparr>ad_currentReportId = None, ad_currentPage = 1, ad_pageSize = 10, ad_totalPages = 1,
      ad_statusFilters = [], ad_sortBy = js ''created_at'', ad_sortDirection = js ''desc'',
      ad_reports = [], ad_isAuthenticated = False\<rparr>"

text \<open>
  The handler of the \<^verbatim>\<open>change\<close> event. The browser has toggled the target before the
  handler runs, so \<open>cb\<close> holds the target's new state. The result is the check boxes and
  the admin state when the handler has returned, and the listing request issued.
\<close>

definition handleStatusFilterChange ::
  "checkbox \<Rightarrow> adminReportsReply \<Rightarrow> checked \<times> adminState \<Rightarrow>
   (checked \<times> adminState) \<times> adminReportsParams" where
  "handleStatusFilterChange target reply cs =
     (case cs of (cb, st) \<Rightarrow>
        (let (cb', st') =
               (if target = StatusAll then
                  (if cb StatusAll then
                     ((\<lambda>c. if c \<noteq> StatusAll then False else cb c),
                      st\<lparr>ad_statusFilters := []\<rparr>)
                   else
                     (cb(StatusPending := True),
                      st\<lparr>ad_statusFilters := [js ''pending'']\<rparr>))
                else
                  (let cb1 = (if cb target then cb(StatusAll := False) else cb);
                       fs = map checkboxValue
                              (filter (\<lambda>c. cb1 c \<and> c \<noteq> StatusAll) statusCheckboxes);
                       cb2 = (if length fs = 0 then cb1(StatusAll := True) else cb1)
                   in (cb2, st\<lparr>ad_statusFilters := fs\<rparr>)));
             (st'', params) = loadAdminReports reply (st'\<lparr>ad_currentPage := 1\<rparr>)
         in ((cb', st''), params)))"

text \<open>A click on a check box: the browser toggles it, then the handler runs.\<close>

definition clickCheckbox ::
  "checkbox \<Rightarrow> adminReportsReply \<Rightarrow> checked \<times> adminState \<Rightarrow>
   (checked \<times> adminState) \<times> adminReportsParams" where
  "clickCheckbox target reply cs =
     (case cs of (cb, st) \<Rightarrow>
        handleStatusFilterChange target reply (cb(target := \<not> cb target), st))"

text \<open>
  The states of the dashboard that its handlers produce from the loaded page: the page
  as admin.html and admin.js create it, a load of the listing (the first one is made by
  \<^verbatim>\<open>checkAuthentication\<close>), a click on a pager button and a click on a check box, each with
  whatever reply the server gives.
\<close>

inductive filterReachable :: "checked \<times> adminState \<Rightarrow> bool" where
  loaded: "filterReachable (initialChecked, initialAdminState)"
| listed: "filterReachable (cb, st) \<Longrightarrow> filterReachable (cb, fst (loadAdminReports reply st))"
| paged:
    "filterReachable (cb, st) \<Longrightarrow>
     filterReachable (cb, fst (navigateReportsPage direction reply st))"
| clicked: "filterReachable cs \<Longrightarrow> filterReachable (fst (clickCheckbox target reply cs))"

subsection \<open>Editing a comparison\<close>

record editComparisonState =
  ec_item1 :: jsstring
  ec_item2 :: jsstring
  ec_reportId :: "jsstring option"

text \<open>
  The edit form: the two item fields, the value of the checked radio button of the group
  \<^verbatim>\<open>result\<close> (none may be checked), the description and the emoji.
\<close>

record editForm =
  ef_item1 :: jsstring
  ef_item2 :: jsstring
  ef_result :: "jsstring option"
  ef_description :: jsstring
  ef_emoji :: jsstring

definition openEditComparisonModal :: "reportView \<Rightarrow> editComparisonState \<times> editForm" where
  "openEditComparisonModal report =
     (\<lparr>ec_item1 = rv_item1 report, ec_item2 = rv_item2 report,
       ec_reportId = Some (rv_report_id report)\<rparr>,
      \<lparr>ef_item1 = rv_item1 report, ef_item2 = rv_item2 report,
       ef_result =
         (if rv_result report = Some (js ''item1'') then Some (js ''item1'')
          else if rv_result report = Some (js ''item2'') then Some (js ''item2'')
          else Some (js ''item1'')),
       ef_description = orDefault (rv_description report) [],
       ef_emoji = orDefault (rv_emoji report) []\<rparr>)"

text \<open>A report id is truthy when it is a non-empty string.\<close>

definition truthy :: "jsstring option \<Rightarrow> bool" where
  "truthy x = (case x of None \<Rightarrow> False | Some s \<Rightarrow> s \<noteq> [])"

datatype saveEffect = SaveAlert jsstring | SaveSucceeded | SaveFailed

text \<open>
  \<^verbatim>\<open>saveComparisonChanges\<close> of admin.js. With no radio button checked the read of
  \<^verbatim>\<open>.value\<close> throws, which the handler catches. The final reload of the listing only
  reads the backend.
\<close>

definition saveComparisonChanges ::
  "editForm \<Rightarrow> editComparisonState \<Rightarrow> backend \<Rightarrow> backend \<times> saveEffect" where
  "saveComparisonChanges form ecs b =
     (case ef_result form of
        None \<Rightarrow> (b, SaveFailed)
      | Some result \<Rightarrow>
          if ef_description form = [] then (b, SaveAlert (js ''Please enter a description''))
          else if ef_emoji form = [] then (b, SaveAlert (js ''Please enter an emoji''))
          else
            (let item1Wins = (result = js ''item1'');
                 item2Wins = (result = js ''item2'')
             in case apiService_updateComparison b (ef_item1 form) (ef_item2 form)
                       item1Wins item2Wins (ef_description form) (ef_emoji form) of
                  (Inl error, b1) \<Rightarrow> (b1, SaveFailed)
                | (Inr updated, b1) \<Rightarrow>
                    if truthy (ec_reportId ecs) then
                      (case apiService_updateReportStatus b1
                              (case ec_reportId ecs of Some rid \<Rightarrow> rid | None \<Rightarrow> [])
                              (js ''reviewed'') of
                         (Inl error, b2) \<Rightarrow> (b2, SaveFailed)
                       | (Inr r, b2) \<Rightarrow> (b2, SaveSucceeded))
                    else (b1, SaveSucceeded)))"

text \<open>
  \<^verbatim>\<open>saveComparisonChanges\<close> of app.js reads the two radio buttons separately and trims
  the description and the emoji. Its page does not define \<^verbatim>\<open>loadAdminReports\<close>, so the
  reload after the two calls throws and the error panel is what the user sees.
\<close>

record editFormApp =
  fa_item1 :: jsstring
  fa_item2 :: jsstring
  fa_item1Wins :: bool
  fa_item2Wins :: bool
  fa_description :: jsstring
  fa_emoji :: jsstring

definition saveComparisonChangesApp ::
  "editFormApp \<Rightarrow> editComparisonState \<Rightarrow> backend \<Rightarrow> backend \<times> saveEffect" where
  "saveComparisonChangesApp form ecs b =
     (let description = trim (fa_description form);
          emoji = trim (fa_emoji form)
      in if description = [] then (b, SaveAlert (js ''Please enter a description.''))
         else if emoji = [] then (b, SaveAlert (js ''Please enter an emoji.''))
         else
           (case apiService_updateComparison b (fa_item1 form) (fa_item2 form)
                   (fa_item1Wins form) (fa_item2Wins form) description emoji of
              (Inl error, b1) \<Rightarrow> (b1, SaveFailed)
            | (Inr updated, b1) \<Rightarrow>
                if truthy (ec_reportId ecs) then
                  (case apiService_updateReportStatus b1
                          (case ec_reportId ecs of Some rid \<Rightarrow> rid | None \<Rightarrow> [])
                          (js ''reviewed'') of
                     (Inl error, b2) \<Rightarrow> (b2, SaveFailed)
                   | (Inr r, b2) \<Rightarrow> (b2, SaveFailed))
                else (b1, SaveFailed)))"

section \<open>Reachable states and scenarios\<close>

text \<open>The six alternatives of the harmful-content pattern other than \<^verbatim>\<open>document\.cookie\<close>.\<close>

definition blockedPatterns :: "jsstring list" where
  "blockedPatterns =
     [js ''<script'', js ''javascript:'', js ''onerror='', js ''onclick='',
      js ''alert('', js ''eval('']"

text \<open>
  The states of one browser tab and the backend behind it: a game is started from any
  state, and from then on inputs are submitted and \<^verbatim>\<open>endGame\<close> runs, with or without
  game-over data.
\<close>

inductive gameReachable :: "judgeFn \<Rightarrow> gameState \<times> backend \<Rightarrow> bool" for judge where
  started: "gameReachable judge (fst (startGame (g, b)))"
| submitted:
    "gameReachable judge s \<Longrightarrow> gameReachable judge (fst (handleSubmit judge inputValue s))"
| ended: "gameReachable judge s \<Longrightarrow> gameReachable judge (fst (endGame d s))"

text \<open>
  The client's copy of the session agrees with the backend's session, and while the client
  takes the game for active the newest history entry is not a failure.
\<close>

definition newestWon :: "historyItem list \<Rightarrow> bool" where
  "newestWon hs = (case hs of [] \<Rightarrow> True | h # rest \<Rightarrow> hi_result h)"

definition inSync :: "gameState \<times> backend \<Rightarrow> bool" where
  "inSync s =
     (case s of (g, b) \<Rightarrow>
        (case sessionId g of
           None \<Rightarrow> False
         | Some sid \<Rightarrow>
             (case sessions b sid of
                None \<Rightarrow> False
              | Some ses \<Rightarrow>
                  usedItems g = gs_usedItems ses \<and> currentItem g = gs_currentItem ses
                  \<and> score g = gs_score ses
                  \<and> (gs_active ses \<longrightarrow> isActive g)
                  \<and> (isActive g \<longrightarrow> newestWon (history g)))))"

text \<open>The session of the backend that the client's session id names.\<close>

definition sessionOf :: "gameState \<times> backend \<Rightarrow> gameSession option" where
  "sessionOf s =
     (case s of (g, b) \<Rightarrow>
        (case sessionId g of None \<Rightarrow> None | Some sid \<Rightarrow> sessions b sid))"

text \<open>The \<^verbatim>\<open>gameState\<close> object as app.js creates it, and a backend with nothing stored.\<close>

definition initialGameState :: gameState where
  "initialGameState =
     \<lparr>sessionId = None, currentItem = js ''rock'', score = 0, isActive = False,
      history = [], usedItems = [], lastComparison = None\<rparr>"

definition emptyBackend :: backend where
  "emptyBackend =
     \<lparr>store = Map.empty, sessions = Map.empty, nextSession = 0, oracleCalls = 0,
      highScores = [], reports = Map.empty\<rparr>"

definition freshGame :: "gameState \<times> backend" where
  "freshGame = fst (startGame (initialGameState, emptyBackend))"

text \<open>
  The judge the integration test expects: paper beats rock, scissors beats paper, and
  nothing else beats anything. And a judge that never answers.
\<close>

definition scriptedJudge :: judgeFn where
  "scriptedJudge current candidate =
     Some \<lparr>ov_winnerIsCandidate =
             ((current = js ''rock'' \<and> candidate = js ''paper'')
              \<or> (current = js ''paper'' \<and> candidate = js ''scissors'')),
           ov_description = js ''judged'', ov_emoji = js ''!''\<rparr>"

definition silentJudge :: judgeFn where
  "silentJudge current candidate = None"

fun turnFailed :: "submitEffect \<Rightarrow> bool" where
  "turnFailed (RequestFailed e) = True"
| "turnFailed _ = False"

text \<open>A backend with one filed report on the pair rock and lava.\<close>

definition lavaReport :: report where
  "lavaReport =
     \<lparr>rp_item1 = js ''rock'', rp_item2 = js ''lava'', rp_session = 0,
      rp_reason = Some (js ''lava melts rock''), rp_status = Pending\<rparr>"

definition moderatedBackend :: backend where
  "moderatedBackend = emptyBackend\<lparr>reports := [js ''r-1'' \<mapsto> lavaReport]\<rparr>"

definition lavaReportView :: reportView where
  "lavaReportView =
     \<lparr>rv_report_id = js ''r-1'', rv_item1 = js ''rock'', rv_item2 = js ''lava'',
      rv_status = js ''pending'', rv_result = None, rv_description = None,
      rv_emoji = None\<rparr>"

text \<open>
  The candidate is judged to beat the current item: the resolution succeeds and its
  verdict is that the candidate wins.
\<close>

definition beats :: "judgeFn \<Rightarrow> backend \<Rightarrow> jsstring \<Rightarrow> jsstring \<Rightarrow> bool" where
  "beats judge b current candidate =
     (case fst (resolve judge b current candidate) of
        Inl e \<Rightarrow> False
      | Inr v \<Rightarrow> rs_candidateWins v)"

text \<open>The response of an answered submission, and the error of a failed one.\<close>

fun answer :: "submitEffect \<Rightarrow> comparisonResponse option" where
  "answer (Answered r) = Some r"
| "answer _ = None"

fun failure :: "submitEffect \<Rightarrow> clientError option" where
  "failure (RequestFailed e) = Some e"
| "failure _ = None"

text \<open>
  The scenario of the integration test: paper is submitted against rock, then scissors
  against paper.
\<close>

definition afterPaper :: "gameState \<times> backend" where
  "afterPaper = fst (handleSubmit scriptedJudge (js ''paper'') freshGame)"

definition afterScissors :: "gameState \<times> backend" where
  "afterScissors = fst (handleSubmit scriptedJudge (js ''scissors'') afterPaper)"

text \<open>The session a start creates.\<close>

definition seedSession :: gameSession where
  "seedSession =
     \<lparr>gs_currentItem = js ''rock'', gs_score = 0, gs_usedItems = [js ''rock''],
      gs_active = True\<rparr>"

text \<open>
  A submission that was answered with a loss, and the chain shown when the \<^verbatim>\<open>endGame\<close>
  that \<^verbatim>\<open>handleSubmit\<close> schedules for it has run.
\<close>

definition lostTurn :: "submitEffect \<Rightarrow> bool" where
  "lostTurn eff = (case answer eff of None \<Rightarrow> False | Some r \<Rightarrow> \<not> cp_result r)"

definition chainAfterLoss ::
  "judgeFn \<Rightarrow> jsstring \<Rightarrow> gameState \<times> backend \<Rightarrow> jsstring list option" where
  "chainAfterLoss judge inputValue s =
     shownChain
       (snd (endGame (scheduledEndGame (snd (handleSubmit judge inputValue s)))
               (fst (handleSubmit judge inputValue s))))"

text \<open>
  The edit form as the moderator submits it after opening it from the report: lava, the
  second item, wins.
\<close>

definition lavaForm :: editForm where
  "lavaForm =
     (snd (openEditComparisonModal lavaReportView))
       \<lparr>ef_result := Some (js ''item2''), ef_description := js ''lava melts rock'',
        ef_emoji := js ''!''\<rparr>"

text \<open>
  The statuses whose check boxes are checked, in document order; and the statuses a
  query names: none when it has no \<^verbatim>\<open>status\<close> parameter, otherwise the parts of the
  parameter between its commas.
\<close>

definition selectedStatuses :: "checked \<Rightarrow> jsstring list" where
  "selectedStatuses cb =
     map checkboxValue (filter (\<lambda>c. cb c \<and> c \<noteq> StatusAll) statusCheckboxes)"

definition statusesOfQuery :: "adminReportsParams \<Rightarrow> jsstring list" where
  "statusesOfQuery q = (case ap_status q of None \<Rightarrow> [] | Some s \<Rightarrow> splitAt 44 s)"

text \<open>
  The filter panel is consistent: the filter list of the admin state is the list of the
  checked statuses, and \<^verbatim>\<open>All\<close> is checked exactly when no status is.
\<close>

definition filterInv :: "checked \<times> adminState \<Rightarrow> bool" where
  "filterInv cs =
     (case cs of (cb, st) \<Rightarrow>
        ad_statusFilters st = selectedStatuses cb
        \<and> (cb StatusAll \<longleftrightarrow> selectedStatuses cb = []))"

text \<open>
  The call of \<^verbatim>\<open>getAdminReports\<close> with no options; a reply with an empty page of a
  listing of the given number of pages; and the filter panel after a click on
  \<^verbatim>\<open>Pending\<close>, after a click on \<^verbatim>\<open>Approved\<close> that follows it, and after a second click
  on \<^verbatim>\<open>Pending\<close> instead.
\<close>

definition noOptions :: adminReportsOptions where
  "noOptions =
     \<lparr>ao_page = None, ao_pageSize = None, ao_statusFilters = None, ao_sortBy = None,
      ao_sortDirection = None\<rparr>"

definition listing :: "int \<Rightarrow> adminReportsReply" where
  "listing total_pages = Inr \<lparr>ar_reports = [], ar_total_pages = total_pages\<rparr>"

definition pendingOnly :: "checked \<times> adminState" where
  "pendingOnly =
     fst (clickCheckbox StatusPending (listing 1) (initialChecked, initialAdminState))"

definition pendingAndApproved :: "checked \<times> adminState" where
  "pendingAndApproved = fst (clickCheckbox StatusApproved (listing 1) pendingOnly)"

definition backToAll :: "checked \<times> adminState" where
  "backToAll = fst (clickCheckbox StatusPending (listing 1) pendingOnly)"

text \<open>
  The \<^verbatim>\<open>scoreboardState\<close> object as app.js creates it; the two pagers after a listing of
  three pages has been loaded; the scoreboard pager on the last of \<open>2 ^ 53\<close> pages; and the
  report pager on the first of two pages.
\<close>

definition initialScoreboardState :: scoreboardState where
  "initialScoreboardState =
     \<lparr>sb_currentPage = 1, sb_pageSize = 10, sb_totalPages = 1, sb_totalCount = 0,
      sb_sortBy = js ''score'', sb_sortDirection = js ''desc'', sb_minScore = None,
      sb_maxScore = None, sb_dateFrom = None, sb_dateTo = None\<rparr>"

definition threePages :: scoreboardState where
  "threePages = scoreboardLoaded 3 25 initialScoreboardState"

definition hugeBoard :: scoreboardState where
  "hugeBoard =
     (scoreboardLoaded 9007199254740992 90071992547409920 initialScoreboardState)
       \<lparr>sb_currentPage := 9007199254740992\<rparr>"

definition threeReportPages :: adminState where
  "threeReportPages = fst (loadAdminReports (listing 3) initialAdminState)"

definition twoReportPages :: adminState where
  "twoReportPages = fst (loadAdminReports (listing 2) initialAdminState)"

text \<open>The pager's view of a state: is the current page one of the pages?\<close>

definition scoreboardPageInRange :: "scoreboardState \<Rightarrow> bool" where
  "scoreboardPageInRange s \<longleftrightarrow> 1 \<le> sb_currentPage s \<and> sb_currentPage s \<le> sb_totalPages s"

definition reportsPageInRange :: "adminState \<Rightarrow> bool" where
  "reportsPageInRange st \<longleftrightarrow> 1 \<le> ad_currentPage st \<and> ad_currentPage st \<le> ad_totalPages st"

chapter \<open>Properties\<close>

section \<open>Evaluation on concrete inputs\<close>

lemmas string_eval =
  js_def trim_def isWhiteSpace_def isLowerAscii_def isUpperAscii_def isDigit_def
  toLowerAscii_def canonicalize_def inClass_def isPunct_def

lemmas validate_eval =
  validateUserInputBeforeSubmit_def charsetTest_def harmfulTest_def harmfulPatterns_def

lemmas backend_eval =
  submitTurn_def resolve_def storeGet_def storePut_def normalizePair_def normalizeItem_def
  reframe_def alreadyUsed_def finalize_def finalData_def bestScore_def endSession_def
  startSession_def seedItem_def errorReply_def handleError_def orDefault_def

lemmas client_eval =
  handleSubmit_def startGame_def endGame_def resetGameState_def displayedChain_def
  apiService_startGame_def apiService_submitComparison_def apiService_endGame_def
  orThrow_def initialGameState_def emptyBackend_def freshGame_def

section \<open>The validation gate\<close>

lemma canonicalize_eq_iff:
  "canonicalize a = canonicalize b \<longleftrightarrow> toLowerAscii a = toLowerAscii b"
  by (auto simp: canonicalize_def toLowerAscii_def isLowerAscii_def isUpperAscii_def)

lemma matchesAt_iff:
  "matchesAt p s \<longleftrightarrow> map toLowerAscii (take (length p) s) = map toLowerAscii p"
  by (induction p s rule: matchesAt.induct) (auto simp: canonicalize_eq_iff)

lemma ex_le_Suc_drop:
  "(\<exists>i\<le>Suc n. P (drop i (c # cs))) \<longleftrightarrow> P (c # cs) \<or> (\<exists>i\<le>n. P (drop i cs))"
proof
  assume "\<exists>i\<le>Suc n. P (drop i (c # cs))"
  then obtain i where i: "i \<le> Suc n" "P (drop i (c # cs))" by blast
  show "P (c # cs) \<or> (\<exists>i\<le>n. P (drop i cs))"
  proof (cases i)
    case 0
    with i show ?thesis by simp
  next
    case (Suc j)
    with i have "j \<le> n" "P (drop j cs)" by simp_all
    then show ?thesis by blast
  qed
next
  assume "P (c # cs) \<or> (\<exists>i\<le>n. P (drop i cs))"
  then show "\<exists>i\<le>Suc n. P (drop i (c # cs))"
  proof
    assume "P (c # cs)"
    then have "P (drop 0 (c # cs))" by simp
    then show ?thesis by blast
  next
    assume "\<exists>i\<le>n. P (drop i cs)"
    then obtain j where "j \<le> n" "P (drop j cs)" by blast
    then have "Suc j \<le> Suc n" "P (drop (Suc j) (c # cs))" by simp_all
    then show ?thesis by blast
  qed
qed

lemma searchIgnoreCase_iff:
  "searchIgnoreCase p s \<longleftrightarrow> (\<exists>i\<le>length s. matchesAt p (drop i s))"
proof (induction s)
  case Nil
  show ?case by simp
next
  case (Cons c cs)
  show ?case
    using Cons.IH ex_le_Suc_drop [of "length cs" "matchesAt p" c cs] by simp
qed

lemma search_is_contains:
  "searchIgnoreCase p s \<longleftrightarrow> containsIgnoringCase p s"
proof -
  have "set [0 ..< Suc (length s)] = {i. i \<le> length s}" by auto
  then have "containsIgnoringCase p s \<longleftrightarrow> (\<exists>i\<le>length s. matchesAt p (drop i s))"
    unfolding containsIgnoringCase_def list_ex_iff matchesAt_iff by blast
  then show ?thesis by (simp only: searchIgnoreCase_iff)
qed

text \<open>A match makes every pattern character the canonical equal of some input character.\<close>

lemma matchesAt_char:
  "matchesAt p s \<Longrightarrow> q \<in> set p \<Longrightarrow> \<exists>c\<in>set s. canonicalize q = canonicalize c"
  by (induction p s rule: matchesAt.induct) auto

lemma search_char:
  "searchIgnoreCase p s \<Longrightarrow> q \<in> set p \<Longrightarrow> \<exists>c\<in>set s. canonicalize q = canonicalize c"
proof (induction s)
  case Nil
  then show ?case using matchesAt_char [of p "[]" q] by simp
next
  case (Cons c cs)
  then show ?case using matchesAt_char [of p "c # cs" q] by auto
qed

text \<open>No character of the class is \<^verbatim>\<open><\<close>, \<^verbatim>\<open>:\<close>, \<^verbatim>\<open>=\<close> or \<^verbatim>\<open>(\<close>, in any case.\<close>

lemma inClass_canonical:
  "inClass c \<Longrightarrow> canonicalize c \<noteq> 60 \<and> canonicalize c \<noteq> 58 \<and> canonicalize c \<noteq> 61
     \<and> canonicalize c \<noteq> 40"
  by (auto simp: inClass_def canonicalize_def isLowerAscii_def isUpperAscii_def isDigit_def
      isWhiteSpace_def)

lemma harmfulPatterns_split:
  "harmfulPatterns = blockedPatterns @ [js ''document.cookie'']"
  by (simp add: harmfulPatterns_def blockedPatterns_def)

lemma blocked_has_marker:
  "p \<in> set blockedPatterns \<Longrightarrow> 60 \<in> set p \<or> 58 \<in> set p \<or> 61 \<in> set p \<or> 40 \<in> set p"
  by (auto simp: blockedPatterns_def js_def)

lemma canonical_marker:
  "canonicalize 60 = 60" "canonicalize 58 = 58" "canonicalize 61 = 61" "canonicalize 40 = 40"
  by (simp_all add: canonicalize_def isLowerAscii_def)

lemma blocked_unreachable:
  assumes "list_all inClass s" "p \<in> set blockedPatterns"
  shows "\<not> searchIgnoreCase p s"
proof
  assume m: "searchIgnoreCase p s"
  from blocked_has_marker [OF assms(2)]
  obtain q where q: "q \<in> set p" "q = 60 \<or> q = 58 \<or> q = 61 \<or> q = 40" by blast
  from search_char [OF m q(1)] obtain c where c: "c \<in> set s" "canonicalize q = canonicalize c"
    by blast
  from assms(1) c(1) have "inClass c" by (simp add: list_all_iff)
  from inClass_canonical [OF this] q(2) c(2) canonical_marker show False by auto
qed

lemma harmfulTest_charset:
  "list_all inClass s \<Longrightarrow> harmfulTest s \<longleftrightarrow> searchIgnoreCase (js ''document.cookie'') s"
  using blocked_unreachable [of s]
  by (auto simp: harmfulTest_def harmfulPatterns_split list_ex_iff)

lemma inClass_words:
  "inClass c \<longleftrightarrow> isLowerAscii c \<or> isUpperAscii c \<or> isDigit c \<or> isWhiteSpace c \<or> isPunct c"
  by (simp add: inClass_def isPunct_def)

lemma validate_valid_iff:
  "v_valid (validateUserInputBeforeSubmit s) \<longleftrightarrow>
     length s \<le> 50 \<and> charsetTest s \<and> \<not> harmfulTest s"
  by (simp add: validateUserInputBeforeSubmit_def not_less)

lemma validate_acceptable:
  "v_valid (validateUserInputBeforeSubmit s) \<longleftrightarrow> acceptableInput s"
  unfolding validate_valid_iff acceptableInput_def charsetTest_def
  using harmfulTest_charset [of s] search_is_contains [of "js ''document.cookie''" s]
  by (auto simp: inClass_words [abs_def])

lemma handleSubmit_gate:
  "requestSent (snd (handleSubmit judge inputValue (g, b))) \<Longrightarrow>
     v_valid (validateUserInputBeforeSubmit (trim inputValue))"
  by (auto simp: handleSubmit_def Let_def split: if_splits prod.splits sum.splits)

text \<open>
  C10. \<^verbatim>\<open>validateUserInputBeforeSubmit\<close> answers valid exactly for the non-empty strings of
  at most 50 characters that consist of ASCII letters, digits, white space and the
  punctuation \<^verbatim>\<open>. , ! ? -\<close> and do not contain \<^verbatim>\<open>document.cookie\<close> in any mix of cases.
  An input that passes the character check matches none of the six other alternatives of
  the harmful-content pattern, so these never decide. And \<^verbatim>\<open>handleSubmit\<close> sends a
  comparison request only for a (trimmed) input that the validator accepts.
\<close>

theorem validateUserInputBeforeSubmit_exact:
  "(v_valid (validateUserInputBeforeSubmit s) \<longleftrightarrow> acceptableInput s)
   \<and> (charsetTest s \<longrightarrow> \<not> list_ex (\<lambda>p. searchIgnoreCase p s) blockedPatterns)
   \<and> (requestSent (snd (handleSubmit judge inputValue (g, b))) \<longrightarrow>
        v_valid (validateUserInputBeforeSubmit (trim inputValue)))"
proof (intro conjI impI)
  show "v_valid (validateUserInputBeforeSubmit s) \<longleftrightarrow> acceptableInput s"
    by (rule validate_acceptable)
next
  assume "charsetTest s"
  then have "list_all inClass s" by (simp add: charsetTest_def)
  then show "\<not> list_ex (\<lambda>p. searchIgnoreCase p s) blockedPatterns"
    using blocked_unreachable [of s] by (auto simp: list_ex_iff)
next
  assume "requestSent (snd (handleSubmit judge inputValue (g, b)))"
  then show "v_valid (validateUserInputBeforeSubmit (trim inputValue))"
    by (rule handleSubmit_gate)
qed

theorem validateUserInputBeforeSubmit_exact_witness:
  "charsetTest (js ''paper'')
   \<and> requestSent (snd (handleSubmit scriptedJudge (js '' paper '') (fst freshGame, snd freshGame)))
   \<and> acceptableInput (js ''paper'')
   \<and> \<not> list_ex (\<lambda>p. searchIgnoreCase p (js ''paper'')) blockedPatterns
   \<and> v_valid (validateUserInputBeforeSubmit (trim (js '' paper '')))
   \<and> \<not> v_valid (validateUserInputBeforeSubmit (js ''Document.Cookie''))
   \<and> \<not> acceptableInput (js ''Document.Cookie'')"
proof -
  have a: "charsetTest (js ''paper'')"
    by (simp add: validate_eval string_eval)
  have b: "requestSent (snd (handleSubmit scriptedJudge (js '' paper '') (fst freshGame, snd freshGame)))"
    by (simp add: client_eval backend_eval validate_eval string_eval scriptedJudge_def Let_def)
  have c: "v_valid (validateUserInputBeforeSubmit (js ''paper''))"
    by (simp add: validate_eval string_eval)
  have d: "\<not> v_valid (validateUserInputBeforeSubmit (js ''Document.Cookie''))"
    by (simp add: validate_eval string_eval)
  show ?thesis
    using a b c d
      validateUserInputBeforeSubmit_exact
        [of "js ''paper''" scriptedJudge "js '' paper ''" "fst freshGame" "snd freshGame"]
      validateUserInputBeforeSubmit_exact
        [of "js ''Document.Cookie''" scriptedJudge "js '' paper ''" "fst freshGame" "snd freshGame"]
    by blast
qed

section \<open>Paging\<close>

lemma jsAdd_exact: "\<bar>x + y\<bar> \<le> 2 ^ 53 \<Longrightarrow> jsAdd x y = Some (x + y)"
  unfolding jsAdd_def roundToDouble_def Let_def by auto

lemma bitLength_bounds: "2 ^ k \<le> n \<Longrightarrow> n < 2 ^ Suc k \<Longrightarrow> bitLength n = Suc k"
proof (induction k arbitrary: n)
  case 0
  then have "n = 1" by simp
  then show ?case by (simp add: bitLength.simps)
next
  case (Suc k)
  from Suc.prems have "2 ^ k \<le> n div 2" "n div 2 < 2 ^ Suc k" by auto
  from Suc.IH [OF this] Suc.prems show ?case by (subst bitLength.simps) auto
qed

lemma jsAdd_past_safe: "jsAdd 9007199254740992 1 = Some 9007199254740992"
proof -
  have "bitLength 9007199254740993 = 54"
    using bitLength_bounds [of 53 9007199254740993] by simp
  then show ?thesis by (simp add: jsAdd_def roundToDouble_def Let_def)
qed

lemma scoreboard_guard:
  "(case jsAdd (sb_currentPage s) direction of
      None \<Rightarrow> True
    | Some target \<Rightarrow> target < 1 \<or> target > sb_totalPages s)
   \<Longrightarrow> navigateScoreboardPage direction s = (s, None)"
  by (auto simp: navigateScoreboardPage_def split: option.splits)

lemma scoreboard_turn:
  "jsAdd (sb_currentPage s) direction = Some target \<Longrightarrow> 1 \<le> target
   \<Longrightarrow> target \<le> sb_totalPages s
   \<Longrightarrow> navigateScoreboardPage direction s =
         (s\<lparr>sb_currentPage := target\<rparr>,
          Some (loadScoreboardData (s\<lparr>sb_currentPage := target\<rparr>)))"
  by (simp add: navigateScoreboardPage_def Let_def)

lemma scoreboard_cases:
  "navigateScoreboardPage direction s = (s, None)
   \<or> (\<exists>target. jsAdd (sb_currentPage s) direction = Some target \<and> 1 \<le> target
         \<and> target \<le> sb_totalPages s
         \<and> navigateScoreboardPage direction s =
             (s\<lparr>sb_currentPage := target\<rparr>,
              Some (loadScoreboardData (s\<lparr>sb_currentPage := target\<rparr>))))"
  by (auto simp: navigateScoreboardPage_def Let_def split: option.splits)

lemma scoreboard_inv:
  "scoreboardPageInRange s \<Longrightarrow> scoreboardPageInRange (fst (navigateScoreboardPage direction s))"
  using scoreboard_cases [of direction s] by (auto simp: scoreboardPageInRange_def)

lemma scoreboard_request:
  "snd (navigateScoreboardPage direction s) = Some q
   \<Longrightarrow> so_page q = sb_currentPage (fst (navigateScoreboardPage direction s))
       \<and> jsAdd (sb_currentPage s) direction = Some (so_page q)
       \<and> 1 \<le> so_page q \<and> so_page q \<le> sb_totalPages s"
  using scoreboard_cases [of direction s] by (auto simp: loadScoreboardData_def)

lemma load_state:
  "fst (loadAdminReports reply st) =
     (case reply of
        Inl error \<Rightarrow> st
      | Inr result \<Rightarrow>
          st\<lparr>ad_reports := ar_reports result, ad_totalPages := ar_total_pages result,
             ad_isAuthenticated := True\<rparr>)"
  by (simp add: loadAdminReports_def Let_def split: sum.splits)

lemma load_request:
  "snd (loadAdminReports reply st) =
     \<lparr>ap_page = (if ad_currentPage st = 0 then 1 else ad_currentPage st),
      ap_page_size = (if ad_pageSize st = 0 then 10 else ad_pageSize st),
      ap_sort_by = (if ad_sortBy st = [] then js ''created_at'' else ad_sortBy st),
      ap_sort_direction = (if ad_sortDirection st = [] then js ''desc'' else ad_sortDirection st),
      ap_status =
        (if ad_statusFilters st = [] then None else Some (joinComma (ad_statusFilters st)))\<rparr>"
  by (simp add: loadAdminReports_def Let_def getAdminReports_def numOrDefault_def orDefault_def
      split: sum.splits)

lemma reports_guard:
  "(case jsAdd (ad_currentPage st) direction of
      None \<Rightarrow> True
    | Some target \<Rightarrow> target < 1 \<or> target > ad_totalPages st)
   \<Longrightarrow> navigateReportsPage direction reply st = (st, None)"
  by (auto simp: navigateReportsPage_def split: option.splits)

lemma reports_turn:
  "jsAdd (ad_currentPage st) direction = Some target \<Longrightarrow> 1 \<le> target
   \<Longrightarrow> target \<le> ad_totalPages st
   \<Longrightarrow> navigateReportsPage direction reply st =
         (fst (loadAdminReports reply (st\<lparr>ad_currentPage := target\<rparr>)),
          Some (snd (loadAdminReports reply (st\<lparr>ad_currentPage := target\<rparr>))))"
  by (simp add: navigateReportsPage_def Let_def split: prod.splits)

lemma reports_cases:
  "navigateReportsPage direction reply st = (st, None)
   \<or> (\<exists>target. jsAdd (ad_currentPage st) direction = Some target \<and> 1 \<le> target
         \<and> target \<le> ad_totalPages st
         \<and> navigateReportsPage direction reply st =
             (fst (loadAdminReports reply (st\<lparr>ad_currentPage := target\<rparr>)),
              Some (snd (loadAdminReports reply (st\<lparr>ad_currentPage := target\<rparr>)))))"
  by (auto simp: navigateReportsPage_def Let_def split: option.splits prod.splits)

lemma reports_after:
  assumes t: "jsAdd (ad_currentPage st) direction = Some target"
    and lo: "1 \<le> target" and hi: "target \<le> ad_totalPages st"
  shows "ad_currentPage (fst (navigateReportsPage direction reply st)) = target
         \<and> ad_totalPages (fst (navigateReportsPage direction reply st)) =
             (case reply of Inl error \<Rightarrow> ad_totalPages st | Inr result \<Rightarrow> ar_total_pages result)
         \<and> map_option ap_page (snd (navigateReportsPage direction reply st)) = Some target
         \<and> (reportsPageInRange (fst (navigateReportsPage direction reply st)) \<longleftrightarrow>
              (case reply of Inl error \<Rightarrow> True | Inr result \<Rightarrow> target \<le> ar_total_pages result))"
  using lo hi
  by (simp add: reports_turn [OF t lo hi] load_state load_request reportsPageInRange_def
      split: sum.splits)

lemma reports_inv:
  assumes inv: "reportsPageInRange st"
    and grow: "case reply of Inl error \<Rightarrow> True | Inr result \<Rightarrow> ad_totalPages st \<le> ar_total_pages result"
  shows "reportsPageInRange (fst (navigateReportsPage direction reply st))"
  using reports_cases [of direction reply st]
proof
  assume "navigateReportsPage direction reply st = (st, None)"
  with inv show ?thesis by simp
next
  assume "\<exists>target. jsAdd (ad_currentPage st) direction = Some target \<and> 1 \<le> target
            \<and> target \<le> ad_totalPages st
            \<and> navigateReportsPage direction reply st =
                (fst (loadAdminReports reply (st\<lparr>ad_currentPage := target\<rparr>)),
                 Some (snd (loadAdminReports reply (st\<lparr>ad_currentPage := target\<rparr>))))"
  then obtain target where t: "jsAdd (ad_currentPage st) direction = Some target"
    and lo: "1 \<le> target" and hi: "target \<le> ad_totalPages st" by blast
  from reports_after [OF t lo hi, of reply] grow hi show ?thesis
    by (auto split: sum.splits)
qed

text \<open>
  C9, as amended. The target page of a navigation is the double the code computes,
  \<^verbatim>\<open>currentPage + direction\<close>; it is the exact sum whenever that is at most \<open>2 ^ 53\<close> in
  magnitude. For both pagers and any direction: when the target is outside
  \<open>[1, totalPages]\<close>, or the sum overflows, the navigation leaves the whole pager state
  unchanged and issues no data request; otherwise \<open>currentPage\<close> becomes the target,
  which lies in \<open>[1, totalPages]\<close> for the page count known at the click, and one request
  for that page is issued. \<^verbatim>\<open>navigateScoreboardPage\<close> returns with the page count
  untouched, so it preserves \<open>1 \<le> currentPage \<le> totalPages\<close>. \<^verbatim>\<open>navigateReportsPage\<close>
  awaits the listing, whose result replaces the page count: after it the current page
  is in range exactly when the request failed or the new page count is at least the
  target, and so whenever the page count has not shrunk.
\<close>

theorem page_navigation_guarded:
  fixes s :: scoreboardState and st :: adminState and reply :: adminReportsReply
    and direction :: int
  shows
    "((case jsAdd (sb_currentPage s) direction of
         None \<Rightarrow> True
       | Some target \<Rightarrow> target < 1 \<or> target > sb_totalPages s)
      \<longrightarrow> navigateScoreboardPage direction s = (s, None))
     \<and> (\<forall>target. jsAdd (sb_currentPage s) direction = Some target \<and> 1 \<le> target
            \<and> target \<le> sb_totalPages s
          \<longrightarrow> navigateScoreboardPage direction s =
                (s\<lparr>sb_currentPage := target\<rparr>,
                 Some (loadScoreboardData (s\<lparr>sb_currentPage := target\<rparr>)))
              \<and> so_page (loadScoreboardData (s\<lparr>sb_currentPage := target\<rparr>)) = target)
     \<and> (scoreboardPageInRange s
          \<longrightarrow> scoreboardPageInRange (fst (navigateScoreboardPage direction s)))
     \<and> ((case jsAdd (ad_currentPage st) direction of
            None \<Rightarrow> True
          | Some target \<Rightarrow> target < 1 \<or> target > ad_totalPages st)
          \<longrightarrow> navigateReportsPage direction reply st = (st, None))
     \<and> (\<forall>target. jsAdd (ad_currentPage st) direction = Some target \<and> 1 \<le> target
            \<and> target \<le> ad_totalPages st
          \<longrightarrow> ad_currentPage (fst (navigateReportsPage direction reply st)) = target
              \<and> ad_totalPages (fst (navigateReportsPage direction reply st)) =
                  (case reply of
                     Inl error \<Rightarrow> ad_totalPages st
                   | Inr result \<Rightarrow> ar_total_pages result)
              \<and> map_option ap_page (snd (navigateReportsPage direction reply st)) = Some target
              \<and> (reportsPageInRange (fst (navigateReportsPage direction reply st)) \<longleftrightarrow>
                   (case reply of
                      Inl error \<Rightarrow> True
                    | Inr result \<Rightarrow> target \<le> ar_total_pages result)))
     \<and> (reportsPageInRange st
          \<and> (case reply of
                Inl error \<Rightarrow> True
              | Inr result \<Rightarrow> ad_totalPages st \<le> ar_total_pages result)
          \<longrightarrow> reportsPageInRange (fst (navigateReportsPage direction reply st)))
     \<and> (\<forall>current :: int. \<bar>current + direction\<bar> \<le> 2 ^ 53
          \<longrightarrow> jsAdd current direction = Some (current + direction))"
proof -
  have a: "(case jsAdd (sb_currentPage s) direction of
              None \<Rightarrow> True
            | Some target \<Rightarrow> target < 1 \<or> target > sb_totalPages s)
           \<longrightarrow> navigateScoreboardPage direction s = (s, None)"
    using scoreboard_guard by blast
  have b: "\<forall>target. jsAdd (sb_currentPage s) direction = Some target \<and> 1 \<le> target
             \<and> target \<le> sb_totalPages s
           \<longrightarrow> navigateScoreboardPage direction s =
                 (s\<lparr>sb_currentPage := target\<rparr>,
                  Some (loadScoreboardData (s\<lparr>sb_currentPage := target\<rparr>)))
               \<and> so_page (loadScoreboardData (s\<lparr>sb_currentPage := target\<rparr>)) = target"
    using scoreboard_turn by (simp add: loadScoreboardData_def)
  have c: "scoreboardPageInRange s
           \<longrightarrow> scoreboardPageInRange (fst (navigateScoreboardPage direction s))"
    using scoreboard_inv by blast
  have d: "(case jsAdd (ad_currentPage st) direction of
              None \<Rightarrow> True
            | Some target \<Rightarrow> target < 1 \<or> target > ad_totalPages st)
           \<longrightarrow> navigateReportsPage direction reply st = (st, None)"
    using reports_guard by blast
  have e: "\<forall>target. jsAdd (ad_currentPage st) direction = Some target \<and> 1 \<le> target
             \<and> target \<le> ad_totalPages st
           \<longrightarrow> ad_currentPage (fst (navigateReportsPage direction reply st)) = target
               \<and> ad_totalPages (fst (navigateReportsPage direction reply st)) =
                   (case reply of
                      Inl error \<Rightarrow> ad_totalPages st
                    | Inr result \<Rightarrow> ar_total_pages result)
               \<and> map_option ap_page (snd (navigateReportsPage direction reply st)) = Some target
               \<and> (reportsPageInRange (fst (navigateReportsPage direction reply st)) \<longleftrightarrow>
                    (case reply of
                       Inl error \<Rightarrow> True
                     | Inr result \<Rightarrow> target \<le> ar_total_pages result))"
    using reports_after by blast
  have f: "reportsPageInRange st
           \<and> (case reply of
                 Inl error \<Rightarrow> True
               | Inr result \<Rightarrow> ad_totalPages st \<le> ar_total_pages result)
           \<longrightarrow> reportsPageInRange (fst (navigateReportsPage direction reply st))"
    using reports_inv by blast
  have g: "\<forall>current :: int. \<bar>current + direction\<bar> \<le> 2 ^ 53
           \<longrightarrow> jsAdd current direction = Some (current + direction)"
    using jsAdd_exact by blast
  from a b c d e f g show ?thesis by (intro conjI)
qed

text \<open>
  The claim as it is written fails in two places. On the last of \<open>2 ^ 53\<close> pages the
  page after the current one is outside the range, yet the sum is rounded back to
  \<open>2 ^ 53\<close>, the guard lets it pass and a request is issued. And the report pager, on the
  first of two pages, moves to the second and then learns from the awaited listing that
  only one page is left: it ends on page 2 of 1.
\<close>

theorem page_navigation_counterexample:
  "sb_currentPage hugeBoard + 1 > sb_totalPages hugeBoard
   \<and> snd (navigateScoreboardPage 1 hugeBoard) = Some (loadScoreboardData hugeBoard)
   \<and> reportsPageInRange twoReportPages
   \<and> ad_currentPage (fst (navigateReportsPage 1 (listing 1) twoReportPages)) = 2
   \<and> ad_totalPages (fst (navigateReportsPage 1 (listing 1) twoReportPages)) = 1
   \<and> \<not> reportsPageInRange (fst (navigateReportsPage 1 (listing 1) twoReportPages))"
proof -
  have huge: "sb_currentPage hugeBoard = 9007199254740992"
    "sb_totalPages hugeBoard = 9007199254740992"
    by (simp_all add: hugeBoard_def scoreboardLoaded_def)
  have same: "hugeBoard\<lparr>sb_currentPage := 9007199254740992\<rparr> = hugeBoard"
    by (simp add: hugeBoard_def)
  have "navigateScoreboardPage 1 hugeBoard = (hugeBoard, Some (loadScoreboardData hugeBoard))"
    by (simp add: navigateScoreboardPage_def huge jsAdd_past_safe Let_def same)
  then have a: "snd (navigateScoreboardPage 1 hugeBoard) = Some (loadScoreboardData hugeBoard)"
    by simp
  have two: "ad_currentPage twoReportPages = 1" "ad_totalPages twoReportPages = 2"
    by (simp_all add: twoReportPages_def load_state listing_def initialAdminState_def)
  have t: "jsAdd (ad_currentPage twoReportPages) 1 = Some 2"
    by (simp add: two jsAdd_exact)
  have b: "reportsPageInRange twoReportPages"
    by (simp add: reportsPageInRange_def two)
  from reports_after [OF t, of "listing 1"] two
  have c: "ad_currentPage (fst (navigateReportsPage 1 (listing 1) twoReportPages)) = 2"
    and d: "ad_totalPages (fst (navigateReportsPage 1 (listing 1) twoReportPages)) = 1"
    and e: "\<not> reportsPageInRange (fst (navigateReportsPage 1 (listing 1) twoReportPages))"
    by (simp_all add: listing_def)
  from huge a b c d e show ?thesis by simp
qed

theorem page_navigation_guarded_witness:
  "navigateScoreboardPage 1 threePages
     = (threePages\<lparr>sb_currentPage := 2\<rparr>,
        Some (loadScoreboardData (threePages\<lparr>sb_currentPage := 2\<rparr>)))
   \<and> navigateScoreboardPage (- 1) threePages = (threePages, None)
   \<and> scoreboardPageInRange threePages
   \<and> scoreboardPageInRange (fst (navigateScoreboardPage 1 threePages))
   \<and> navigateReportsPage (- 1) (listing 3) threeReportPages = (threeReportPages, None)
   \<and> ad_currentPage (fst (navigateReportsPage 1 (listing 4) threeReportPages)) = 2
   \<and> ad_totalPages (fst (navigateReportsPage 1 (listing 4) threeReportPages)) = 4
   \<and> map_option ap_page (snd (navigateReportsPage 1 (listing 4) threeReportPages)) = Some 2
   \<and> reportsPageInRange threeReportPages
   \<and> reportsPageInRange (fst (navigateReportsPage 1 (listing 4) threeReportPages))
   \<and> jsAdd 1 1 = Some 2
   \<and> jsAdd 1 (- 1) = Some 0"
proof -
  have sb: "sb_currentPage threePages = 1" "sb_totalPages threePages = 3"
    by (simp_all add: threePages_def scoreboardLoaded_def initialScoreboardState_def)
  have ad: "ad_currentPage threeReportPages = 1" "ad_totalPages threeReportPages = 3"
    by (simp_all add: threeReportPages_def load_state listing_def initialAdminState_def)
  have in3: "scoreboardPageInRange threePages" "reportsPageInRange threeReportPages"
    by (simp_all add: scoreboardPageInRange_def reportsPageInRange_def sb ad)
  have grown: "case listing 4 of
                 Inl error \<Rightarrow> True
               | Inr result \<Rightarrow> ad_totalPages threeReportPages \<le> ar_total_pages result"
    by (simp add: listing_def ad)
  note ahead = page_navigation_guarded [of threePages 1 threeReportPages "listing 4"]
  note behind = page_navigation_guarded [of threePages "- 1" threeReportPages "listing 3"]
  from ahead have "\<forall>current :: int. \<bar>current + 1\<bar> \<le> 2 ^ 53 \<longrightarrow> jsAdd current 1 = Some (current + 1)"
    by blast
  from this [rule_format, of 1] have up: "jsAdd 1 1 = Some 2"
    by simp
  from behind
  have "\<forall>current :: int. \<bar>current + - 1\<bar> \<le> 2 ^ 53 \<longrightarrow> jsAdd current (- 1) = Some (current + - 1)"
    by blast
  from this [rule_format, of 1] have down: "jsAdd 1 (- 1) = Some 0"
    by simp
  from ahead have a: "navigateScoreboardPage 1 threePages
     = (threePages\<lparr>sb_currentPage := 2\<rparr>,
        Some (loadScoreboardData (threePages\<lparr>sb_currentPage := 2\<rparr>)))"
    by (simp add: sb up)
  from behind have b: "navigateScoreboardPage (- 1) threePages = (threePages, None)"
    by (simp add: sb down)
  from ahead in3 have c: "scoreboardPageInRange (fst (navigateScoreboardPage 1 threePages))"
    by blast
  from behind have d: "navigateReportsPage (- 1) (listing 3) threeReportPages = (threeReportPages, None)"
    by (simp add: ad down)
  from ahead have e: "ad_currentPage (fst (navigateReportsPage 1 (listing 4) threeReportPages)) = 2
      \<and> ad_totalPages (fst (navigateReportsPage 1 (listing 4) threeReportPages)) = 4
      \<and> map_option ap_page (snd (navigateReportsPage 1 (listing 4) threeReportPages)) = Some 2"
    by (simp add: ad up listing_def)
  from ahead in3 grown
  have f: "reportsPageInRange (fst (navigateReportsPage 1 (listing 4) threeReportPages))"
    by blast
  from a b c d e f in3 up down show ?thesis by blast
qed

section \<open>The backend core\<close>

lemma resolve_frame:
  "sessions (snd (resolve judge b cur cand)) = sessions b
   \<and> highScores (snd (resolve judge b cur cand)) = highScores b
   \<and> reports (snd (resolve judge b cur cand)) = reports b
   \<and> nextSession (snd (resolve judge b cur cand)) = nextSession b"
  by (simp add: resolve_def storePut_def Let_def split: option.splits)

lemma resolve_failure:
  "fst (resolve judge b cur cand) = Inl e \<Longrightarrow>
     e = OracleTransient \<and> judge cur cand = None
     \<and> snd (resolve judge b cur cand) = b\<lparr>oracleCalls := oracleCalls b + 1\<rparr>"
  by (simp add: resolve_def storePut_def Let_def split: option.splits prod.splits)

lemma submitTurn_failure:
  assumes "submitTurn judge b sidOpt input = (Inl e, b')"
  shows "(e = OracleTransient \<and> b' = b\<lparr>oracleCalls := oracleCalls b + 1\<rparr>
          \<and> (\<exists>sid ses. sidOpt = Some sid \<and> sessions b sid = Some ses
                \<and> judge (gs_currentItem ses) input = None))
         \<or> (e \<noteq> OracleTransient \<and> b' = b)"
proof (cases sidOpt)
  case None
  with assms show ?thesis by (auto simp: submitTurn_def)
next
  case (Some sid)
  show ?thesis
  proof (cases "sessions b sid")
    case None
    with Some assms show ?thesis by (auto simp: submitTurn_def)
  next
    case (Some ses)
    note ses = \<open>sidOpt = Some sid\<close> Some
    show ?thesis
    proof (cases "\<not> gs_active ses \<or> alreadyUsed (gs_usedItems ses) input")
      case True
      with ses assms show ?thesis by (auto simp: submitTurn_def split: if_splits)
    next
      case False
      obtain r b1 where r: "resolve judge b (gs_currentItem ses) input = (r, b1)"
        by (cases "resolve judge b (gs_currentItem ses) input")
      show ?thesis
      proof (cases r)
        case (Inl e1)
        with r resolve_failure [of judge b "gs_currentItem ses" input e1]
        have "e1 = OracleTransient" "b1 = b\<lparr>oracleCalls := oracleCalls b + 1\<rparr>"
          "judge (gs_currentItem ses) input = None" by simp_all
        with ses False r Inl assms show ?thesis by (simp add: submitTurn_def)
      next
        case (Inr v)
        with ses False r assms show ?thesis
          by (simp add: submitTurn_def finalize_def Let_def split: if_splits)
      qed
    qed
  qed
qed

lemma submitTurn_win:
  assumes ses: "sessions b sid = Some ses" and act: "gs_active ses"
    and fresh: "\<not> alreadyUsed (gs_usedItems ses) input"
    and win: "beats judge b (gs_currentItem ses) input"
  shows "\<exists>r. submitTurn judge b (Some sid) input =
           (Inr r,
            (snd (resolve judge b (gs_currentItem ses) input))
              \<lparr>sessions := (sessions b)(sid \<mapsto>
                 ses\<lparr>gs_usedItems := gs_usedItems ses @ [input], gs_currentItem := input,
                     gs_score := gs_score ses + 1\<rparr>)\<rparr>)
         \<and> cp_result r \<and> cp_next_item r = input \<and> cp_score r = gs_score ses + 1
         \<and> \<not> cp_game_over r \<and> cp_end_game_data r = None"
proof -
  obtain r b1 where r: "resolve judge b (gs_currentItem ses) input = (r, b1)"
    by (cases "resolve judge b (gs_currentItem ses) input")
  from win r obtain v where v: "r = Inr v" "rs_candidateWins v"
    by (cases r) (simp_all add: beats_def)
  from resolve_frame [of judge b "gs_currentItem ses" input] r
  have "sessions b1 = sessions b" by simp
  with ses act fresh r v show ?thesis by (simp add: submitTurn_def Let_def)
qed

section \<open>Turns of the game\<close>

lemma handleSubmit_answered:
  assumes "isActive g" "trim inputValue = input" "input \<noteq> []"
    "v_valid (validateUserInputBeforeSubmit input)"
    "submitTurn judge b (sessionId g) input = (Inr r, b')" "\<not> cp_game_over r"
  shows "\<exists>g'. handleSubmit judge inputValue (g, b) = ((g', b'), Answered r)
           \<and> usedItems g' = usedItems g @ [input] \<and> currentItem g' = cp_next_item r
           \<and> score g' = cp_score r \<and> isActive g'"
  using assms by (simp add: handleSubmit_def apiService_submitComparison_def orThrow_def Let_def)

text \<open>
  C5. Every newly started session has the seed item \<^verbatim>\<open>rock\<close> as its current item,
  score 0, is active, and its used-items list is exactly the one-element list of the
  seed item: in the client's game state after \<^verbatim>\<open>startGame\<close>, and in the session the
  backend created for it.
\<close>

theorem new_session_state:
  "snd (startGame (g, b)) = GameScreen
   \<and> currentItem (fst (fst (startGame (g, b)))) = js ''rock''
   \<and> score (fst (fst (startGame (g, b)))) = 0
   \<and> isActive (fst (fst (startGame (g, b))))
   \<and> usedItems (fst (fst (startGame (g, b)))) = [js ''rock'']
   \<and> history (fst (fst (startGame (g, b)))) = []
   \<and> sessionOf (fst (startGame (g, b))) =
       Some \<lparr>gs_currentItem = js ''rock'', gs_score = 0, gs_usedItems = [js ''rock''],
             gs_active = True\<rparr>"
  by (simp add: startGame_def apiService_startGame_def orThrow_def startSession_def resetGameState_def
      seedItem_def sessionOf_def Let_def)

theorem new_session_state_witness:
  "currentItem (fst freshGame) = js ''rock'' \<and> score (fst freshGame) = 0
   \<and> isActive (fst freshGame) \<and> usedItems (fst freshGame) = [js ''rock'']
   \<and> sessionOf freshGame = Some seedSession"
  using new_session_state [of initialGameState emptyBackend]
  by (simp add: freshGame_def seedSession_def)

text \<open>
  C2. For every active session and every input that is not already used and is judged to
  beat the current item, the turn succeeds: the response has result true and the input as
  next item, the input is appended to the used-items list, the current item becomes the
  input, the score increases by exactly 1 and the session stays active. The client's game
  state follows for every input that reaches the backend through \<^verbatim>\<open>handleSubmit\<close>.
\<close>

theorem winning_turn:
  assumes ses: "sessions b sid = Some ses" and act: "gs_active ses"
    and fresh: "\<not> alreadyUsed (gs_usedItems ses) input"
    and win: "beats judge b (gs_currentItem ses) input"
  shows "\<exists>r b'. submitTurn judge b (Some sid) input = (Inr r, b')
           \<and> cp_result r \<and> cp_next_item r = input \<and> cp_score r = gs_score ses + 1
           \<and> \<not> cp_game_over r
           \<and> sessions b' sid =
               Some \<lparr>gs_currentItem = input, gs_score = gs_score ses + 1,
                     gs_usedItems = gs_usedItems ses @ [input], gs_active = True\<rparr>
           \<and> (\<forall>g inputValue.
                 isActive g \<and> sessionId g = Some sid \<and> trim inputValue = input \<and> input \<noteq> []
                 \<and> v_valid (validateUserInputBeforeSubmit input) \<longrightarrow>
                 (\<exists>g'. handleSubmit judge inputValue (g, b) = ((g', b'), Answered r)
                    \<and> usedItems g' = usedItems g @ [input] \<and> currentItem g' = input
                    \<and> score g' = gs_score ses + 1 \<and> isActive g'))"
proof -
  from submitTurn_win [OF ses act fresh win] obtain r b'
    where r: "submitTurn judge b (Some sid) input = (Inr r, b')"
      "b' = (snd (resolve judge b (gs_currentItem ses) input))
              \<lparr>sessions := (sessions b)(sid \<mapsto>
                 ses\<lparr>gs_usedItems := gs_usedItems ses @ [input], gs_currentItem := input,
                     gs_score := gs_score ses + 1\<rparr>)\<rparr>"
      "cp_result r" "cp_next_item r = input" "cp_score r = gs_score ses + 1"
      "\<not> cp_game_over r"
    by blast
  from r(2) act have s': "sessions b' sid =
      Some \<lparr>gs_currentItem = input, gs_score = gs_score ses + 1,
            gs_usedItems = gs_usedItems ses @ [input], gs_active = True\<rparr>"
    by (cases ses) simp
  have c: "\<exists>g'. handleSubmit judge inputValue (g, b) = ((g', b'), Answered r)
                    \<and> usedItems g' = usedItems g @ [input] \<and> currentItem g' = input
                    \<and> score g' = gs_score ses + 1 \<and> isActive g'"
    if "isActive g" "sessionId g = Some sid" "trim inputValue = input" "input \<noteq> []"
      "v_valid (validateUserInputBeforeSubmit input)" for g inputValue
    using handleSubmit_answered [of g inputValue input judge b r b'] that r by simp
  from r s' c show ?thesis by blast
qed


lemmas scenario_eval =
  client_eval backend_eval validate_eval string_eval Let_def

theorem winning_turn_witness:
  "map_option cp_result (answer (snd (handleSubmit scriptedJudge (js ''paper'') freshGame)))
     = Some True
   \<and> map_option cp_next_item (answer (snd (handleSubmit scriptedJudge (js ''paper'') freshGame)))
     = Some (js ''paper'')
   \<and> map_option cp_score (answer (snd (handleSubmit scriptedJudge (js ''paper'') freshGame)))
     = Some 1
   \<and> usedItems (fst afterPaper) = [js ''rock'', js ''paper'']
   \<and> currentItem (fst afterPaper) = js ''paper''
   \<and> score (fst afterPaper) = 1 \<and> isActive (fst afterPaper)
   \<and> usedItems (fst afterScissors) = [js ''rock'', js ''paper'', js ''scissors'']
   \<and> currentItem (fst afterScissors) = js ''scissors''
   \<and> score (fst afterScissors) = 2 \<and> isActive (fst afterScissors)"
proof -
  have f: "freshGame = (fst freshGame, snd freshGame)" by simp
  have h1: "sessions (snd freshGame) 0 = Some seedSession"
    and h2: "gs_active seedSession"
    and h3: "\<not> alreadyUsed (gs_usedItems seedSession) (js ''paper'')"
    and h4: "beats scriptedJudge (snd freshGame) (gs_currentItem seedSession) (js ''paper'')"
    and h5: "isActive (fst freshGame)" "sessionId (fst freshGame) = Some 0"
      "trim (js ''paper'') = js ''paper''" "js ''paper'' \<noteq> []"
      "v_valid (validateUserInputBeforeSubmit (js ''paper''))"
      "usedItems (fst freshGame) = [js ''rock'']"
    by (simp_all add: scenario_eval scriptedJudge_def seedSession_def beats_def)
  from winning_turn [OF h1 h2 h3 h4] obtain r b' g'
    where one: "cp_result r" "cp_next_item r = js ''paper''" "cp_score r = 1"
      "sessions b' 0 = Some \<lparr>gs_currentItem = js ''paper'', gs_score = 1,
          gs_usedItems = [js ''rock'', js ''paper''], gs_active = True\<rparr>"
      "handleSubmit scriptedJudge (js ''paper'') (fst freshGame, snd freshGame)
         = ((g', b'), Answered r)"
      "usedItems g' = [js ''rock'', js ''paper'']" "currentItem g' = js ''paper''"
      "score g' = 1" "isActive g'"
    using h5 by (fastforce simp: seedSession_def)
  from one(5) have ap: "afterPaper = (g', b')"
    by (simp add: afterPaper_def)
  have k3: "\<not> alreadyUsed [js ''rock'', js ''paper''] (js ''scissors'')"
    and k4: "beats scriptedJudge (snd afterPaper) (js ''paper'') (js ''scissors'')"
    and k5: "sessionId (fst afterPaper) = Some 0"
      "trim (js ''scissors'') = js ''scissors''" "js ''scissors'' \<noteq> []"
      "v_valid (validateUserInputBeforeSubmit (js ''scissors''))"
    by (simp_all add: scenario_eval scriptedJudge_def afterPaper_def beats_def)
  have q2: "gs_active \<lparr>gs_currentItem = js ''paper'', gs_score = 1,
          gs_usedItems = [js ''rock'', js ''paper''], gs_active = True\<rparr>"
    and q3: "\<not> alreadyUsed (gs_usedItems \<lparr>gs_currentItem = js ''paper'', gs_score = 1,
          gs_usedItems = [js ''rock'', js ''paper''], gs_active = True\<rparr>) (js ''scissors'')"
    and q4: "beats scriptedJudge b' (gs_currentItem \<lparr>gs_currentItem = js ''paper'',
          gs_score = 1, gs_usedItems = [js ''rock'', js ''paper''], gs_active = True\<rparr>)
          (js ''scissors'')"
    using k3 k4 [unfolded ap] by simp_all
  from winning_turn [OF one(4) q2 q3 q4] obtain r2 b2
    where all2: "\<forall>g inputValue.
                 isActive g \<and> sessionId g = Some 0 \<and> trim inputValue = js ''scissors''
                 \<and> js ''scissors'' \<noteq> []
                 \<and> v_valid (validateUserInputBeforeSubmit (js ''scissors'')) \<longrightarrow>
                 (\<exists>g2. handleSubmit scriptedJudge inputValue (g, b') = ((g2, b2), Answered r2)
                    \<and> usedItems g2 = usedItems g @ [js ''scissors'']
                    \<and> currentItem g2 = js ''scissors''
                    \<and> score g2 = 1 + 1 \<and> isActive g2)"
    by auto
  from k5 [unfolded ap] one(9) have "isActive g' \<and> sessionId g' = Some 0
      \<and> trim (js ''scissors'') = js ''scissors'' \<and> js ''scissors'' \<noteq> []
      \<and> v_valid (validateUserInputBeforeSubmit (js ''scissors''))"
    by simp
  with all2 [rule_format, of g' "js ''scissors''"] one(6) obtain g2
    where two: "handleSubmit scriptedJudge (js ''scissors'') (g', b') = ((g2, b2), Answered r2)"
      "usedItems g2 = [js ''rock'', js ''paper'', js ''scissors'']"
      "currentItem g2 = js ''scissors''" "score g2 = 2" "isActive g2"
    by auto
  from two(1) ap have "afterScissors = (g2, b2)"
    by (simp add: afterScissors_def)
  then have fs: "fst afterScissors = g2" by (metis fst_conv)
  from ap have fa: "fst afterPaper = g'" by (metis fst_conv)
  from one(5) have e1: "snd (handleSubmit scriptedJudge (js ''paper'') freshGame) = Answered r"
    by simp
  from e1 one(1-3) one(6-9) two(2-5) fa fs show ?thesis by simp
qed

text \<open>
  C3. A submission of an item already present, case-insensitively, in the used-items list
  of an active session fails with the error \<^verbatim>\<open>ITEM_ALREADY_USED\<close>, delivered with HTTP
  status 422; the backend state is unchanged, so the session remains active and no
  resolution took place. The client's error handler attaches the code
  \<^verbatim>\<open>ITEM_ALREADY_USED\<close> exactly when a response arrived whose status is 422 and whose
  body has that code, and attaches no other code.
\<close>

lemma handleError_code:
  "ce_code (handleError err) = Some (js ''ITEM_ALREADY_USED'') \<longleftrightarrow>
     (case ax_response err of
        None \<Rightarrow> False
      | Some resp \<Rightarrow>
          er_status resp = 422 \<and> ed_code (er_data resp) = Some (js ''ITEM_ALREADY_USED''))"
  by (simp add: handleError_def Let_def split: option.splits)

lemma handleError_code_range:
  "ce_code (handleError err) = None
   \<or> ce_code (handleError err) = Some (js ''ITEM_ALREADY_USED'')"
  by (simp add: handleError_def Let_def split: option.splits)

theorem used_item_rejected:
  assumes ses: "sessions b sid = Some ses" and act: "gs_active ses"
    and used: "alreadyUsed (gs_usedItems ses) input"
  shows "submitTurn judge b (Some sid) input = (Inl ItemAlreadyUsed, b)
         \<and> httpStatus ItemAlreadyUsed = 422
         \<and> errorCode ItemAlreadyUsed = Some (js ''ITEM_ALREADY_USED'')
         \<and> (\<exists>e. apiService_submitComparison judge b (Some sid) current input = (Inl e, b)
                \<and> ce_code e = Some (js ''ITEM_ALREADY_USED''))
         \<and> (\<forall>err. ce_code (handleError err) = Some (js ''ITEM_ALREADY_USED'') \<longleftrightarrow>
                (case ax_response err of
                   None \<Rightarrow> False
                 | Some resp \<Rightarrow>
                     er_status resp = 422
                     \<and> ed_code (er_data resp) = Some (js ''ITEM_ALREADY_USED'')))
         \<and> (\<forall>err. ce_code (handleError err) = None
                \<or> ce_code (handleError err) = Some (js ''ITEM_ALREADY_USED''))"
proof -
  from ses act used have t: "submitTurn judge b (Some sid) input = (Inl ItemAlreadyUsed, b)"
    by (simp add: submitTurn_def)
  then have a: "apiService_submitComparison judge b (Some sid) current input
      = (Inl (handleError (errorReply ItemAlreadyUsed)), b)"
    by (simp add: apiService_submitComparison_def orThrow_def)
  have c: "ce_code (handleError (errorReply ItemAlreadyUsed)) = Some (js ''ITEM_ALREADY_USED'')"
    by (simp add: handleError_code errorReply_def)
  from t a c handleError_code handleError_code_range show ?thesis by simp
qed

theorem used_item_rejected_witness:
  "alreadyUsed (gs_usedItems seedSession) (js ''Rock'')
   \<and> submitTurn scriptedJudge (snd freshGame) (Some 0) (js ''Rock'')
       = (Inl ItemAlreadyUsed, snd freshGame)
   \<and> sessions (snd freshGame) 0 = Some seedSession \<and> gs_active seedSession
   \<and> oracleCalls (snd freshGame) = 0"
proof -
  have h1: "sessions (snd freshGame) 0 = Some seedSession"
    and h2: "gs_active seedSession"
    and h3: "alreadyUsed (gs_usedItems seedSession) (js ''Rock'')"
    and h4: "oracleCalls (snd freshGame) = 0"
    by (simp_all add: scenario_eval seedSession_def)
  from used_item_rejected [OF h1 h2 h3, of scriptedJudge] h1 h2 h3 h4 show ?thesis by simp
qed


section \<open>Failed turns\<close>

lemma errorReply_code:
  "ce_code (handleError (errorReply e)) = Some (js ''ITEM_ALREADY_USED'') \<longleftrightarrow> e = ItemAlreadyUsed"
  by (cases e) (simp_all add: handleError_def errorReply_def Let_def)

lemma handleSubmit_unanswered:
  assumes run: "handleSubmit judge inputValue (g, b) = ((g', b'), eff)"
    and err: "answer eff = None"
  shows "g' = g
         \<and> ((\<not> requestSent eff \<and> b' = b)
            \<or> (\<exists>e. submitTurn judge b (sessionId g) (trim inputValue) = (Inl e, b')
                     \<and> eff = RequestFailed (handleError (errorReply e))))"
proof (cases "\<not> isActive g \<or> trim inputValue = []
    \<or> \<not> v_valid (validateUserInputBeforeSubmit (trim inputValue))")
  case True
  with run show ?thesis by (auto simp: handleSubmit_def Let_def split: if_splits)
next
  case False
  obtain res b1 where t: "submitTurn judge b (sessionId g) (trim inputValue) = (res, b1)"
    by (cases "submitTurn judge b (sessionId g) (trim inputValue)")
  show ?thesis
  proof (cases res)
    case (Inl e)
    with False t run show ?thesis
      by (simp add: handleSubmit_def apiService_submitComparison_def orThrow_def Let_def)
  next
    case (Inr r)
    with False t run have "answer eff = Some r"
      by (auto simp: handleSubmit_def apiService_submitComparison_def orThrow_def Let_def split: if_splits)
    with err show ?thesis by simp
  qed
qed

lemma submitTurn_error:
  assumes "submitTurn judge b sidOpt input = (Inl e, b')"
  shows "(e = NotFound \<and> b' = b
          \<and> (case sidOpt of None \<Rightarrow> True | Some sid \<Rightarrow> sessions b sid = None))
         \<or> (\<exists>sid ses. sidOpt = Some sid \<and> sessions b sid = Some ses
               \<and> ((e = SessionNotActive \<and> b' = b \<and> \<not> gs_active ses)
                  \<or> (e = ItemAlreadyUsed \<and> b' = b \<and> gs_active ses
                      \<and> alreadyUsed (gs_usedItems ses) input)
                  \<or> (e = OracleTransient \<and> b' = b\<lparr>oracleCalls := oracleCalls b + 1\<rparr>
                      \<and> gs_active ses \<and> \<not> alreadyUsed (gs_usedItems ses) input
                      \<and> storeGet (store b) (gs_currentItem ses) input = None
                      \<and> judge (gs_currentItem ses) input = None)))"
proof (cases sidOpt)
  case None
  with assms show ?thesis by (auto simp: submitTurn_def)
next
  case (Some sid)
  show ?thesis
  proof (cases "sessions b sid")
    case None
    with Some assms show ?thesis by (auto simp: submitTurn_def)
  next
    case (Some ses)
    note ses = \<open>sidOpt = Some sid\<close> Some
    show ?thesis
    proof (cases "\<not> gs_active ses \<or> alreadyUsed (gs_usedItems ses) input")
      case True
      with ses assms show ?thesis by (auto simp: submitTurn_def split: if_splits)
    next
      case False
      obtain r b1 where r: "resolve judge b (gs_currentItem ses) input = (r, b1)"
        by (cases "resolve judge b (gs_currentItem ses) input")
      show ?thesis
      proof (cases r)
        case (Inl e1)
        with r resolve_failure [of judge b "gs_currentItem ses" input e1]
        have "e1 = OracleTransient" "b1 = b\<lparr>oracleCalls := oracleCalls b + 1\<rparr>"
          "judge (gs_currentItem ses) input = None" by simp_all
        moreover from r Inl have "storeGet (store b) (gs_currentItem ses) input = None"
          by (auto simp: resolve_def Let_def split: option.splits)
        ultimately show ?thesis
          using ses False r Inl assms by (simp add: submitTurn_def)
      next
        case (Inr v)
        with ses False r assms show ?thesis
          by (simp add: submitTurn_def finalize_def Let_def split: if_splits)
      qed
    qed
  qed
qed

text \<open>
  C4, as amended. A submission that ends without an answer (refused by the validation
  gate, or failed with an error) leaves the client's game state as it was: current item,
  score, used items, active flag and history. In the backend the sessions, the comparison
  store and the high scores are unchanged. A submission that the client does not send
  leaves the backend untouched. A submission that is sent and fails has failed in
  \<^verbatim>\<open>submitTurn\<close> with one of four errors, which the client shows through \<^verbatim>\<open>handleError\<close>:
  the session is unknown, the session is not active, or the item has already been used,
  and then no oracle call was made and the backend is exactly as before; or the session
  is active, the item is new, no comparison is stored for the pair and the oracle gives
  no verdict, and then the error is the oracle's own and exactly one oracle call is all
  that has changed.
\<close>

theorem failed_turn_changes_nothing:
  assumes run: "handleSubmit judge inputValue (g, b) = ((g', b'), eff)"
    and err: "answer eff = None"
  shows "g' = g
         \<and> sessions b' = sessions b \<and> store b' = store b \<and> highScores b' = highScores b
         \<and> (oracleCalls b' = oracleCalls b
            \<or> (oracleCalls b' = oracleCalls b + 1
                \<and> (\<exists>ses. sessionOf (g, b) = Some ses
                      \<and> judge (gs_currentItem ses) (trim inputValue) = None)))
         \<and> (map_option ce_code (failure eff) = Some (Some (js ''ITEM_ALREADY_USED''))
              \<longrightarrow> b' = b)
         \<and> (\<not> requestSent eff \<longrightarrow> b' = b)
         \<and> (requestSent eff \<longrightarrow>
              (\<exists>e. submitTurn judge b (sessionId g) (trim inputValue) = (Inl e, b')
                 \<and> eff = RequestFailed (handleError (errorReply e))
                 \<and> ((e = NotFound \<and> b' = b \<and> sessionOf (g, b) = None)
                    \<or> (\<exists>ses. sessionOf (g, b) = Some ses
                          \<and> ((e = SessionNotActive \<and> b' = b \<and> \<not> gs_active ses)
                             \<or> (e = ItemAlreadyUsed \<and> b' = b \<and> gs_active ses
                                 \<and> alreadyUsed (gs_usedItems ses) (trim inputValue))
                             \<or> (e = OracleTransient
                                 \<and> b' = b\<lparr>oracleCalls := oracleCalls b + 1\<rparr>
                                 \<and> gs_active ses
                                 \<and> \<not> alreadyUsed (gs_usedItems ses) (trim inputValue)
                                 \<and> storeGet (store b) (gs_currentItem ses) (trim inputValue)
                                     = None
                                 \<and> judge (gs_currentItem ses) (trim inputValue) = None))))))
         \<and> (oracleCalls b' = oracleCalls b + 1 \<longleftrightarrow>
              requestSent eff
              \<and> fst (submitTurn judge b (sessionId g) (trim inputValue)) = Inl OracleTransient)
         \<and> (oracleCalls b' = oracleCalls b \<longleftrightarrow>
              \<not> requestSent eff
              \<or> fst (submitTurn judge b (sessionId g) (trim inputValue)) \<noteq> Inl OracleTransient)"
proof -
  from handleSubmit_unanswered [OF run err]
  have g: "g' = g"
    and c: "(\<not> requestSent eff \<and> b' = b)
            \<or> (\<exists>e. submitTurn judge b (sessionId g) (trim inputValue) = (Inl e, b')
                     \<and> eff = RequestFailed (handleError (errorReply e)))"
    by simp_all
  from c show ?thesis
  proof
    assume "\<not> requestSent eff \<and> b' = b"
    with g show ?thesis by simp
  next
    assume "\<exists>e. submitTurn judge b (sessionId g) (trim inputValue) = (Inl e, b')
                     \<and> eff = RequestFailed (handleError (errorReply e))"
    then obtain e where e: "submitTurn judge b (sessionId g) (trim inputValue) = (Inl e, b')"
      "eff = RequestFailed (handleError (errorReply e))" by blast
    from e(2) have sent: "requestSent eff" by simp
    from submitTurn_error [OF e(1)]
    have kinds: "(e = NotFound \<and> b' = b \<and> sessionOf (g, b) = None)
       \<or> (\<exists>ses. sessionOf (g, b) = Some ses
             \<and> ((e = SessionNotActive \<and> b' = b \<and> \<not> gs_active ses)
                \<or> (e = ItemAlreadyUsed \<and> b' = b \<and> gs_active ses
                    \<and> alreadyUsed (gs_usedItems ses) (trim inputValue))
                \<or> (e = OracleTransient
                    \<and> b' = b\<lparr>oracleCalls := oracleCalls b + 1\<rparr>
                    \<and> gs_active ses
                    \<and> \<not> alreadyUsed (gs_usedItems ses) (trim inputValue)
                    \<and> storeGet (store b) (gs_currentItem ses) (trim inputValue) = None
                    \<and> judge (gs_currentItem ses) (trim inputValue) = None)))"
      by (auto simp: sessionOf_def split: option.splits)
    have frame: "sessions b' = sessions b \<and> store b' = store b \<and> highScores b' = highScores b"
      using kinds by auto
    have calls: "(e = OracleTransient \<and> oracleCalls b' = oracleCalls b + 1
                   \<and> (\<exists>ses. sessionOf (g, b) = Some ses
                         \<and> judge (gs_currentItem ses) (trim inputValue) = None))
                 \<or> (e \<noteq> OracleTransient \<and> b' = b)"
      using kinds by auto
    have used: "map_option ce_code (failure eff) = Some (Some (js ''ITEM_ALREADY_USED''))
                  \<longrightarrow> b' = b"
      using calls e(2) by (auto simp: errorReply_code)
    have detail: "requestSent eff \<longrightarrow>
              (\<exists>e. submitTurn judge b (sessionId g) (trim inputValue) = (Inl e, b')
                 \<and> eff = RequestFailed (handleError (errorReply e))
                 \<and> ((e = NotFound \<and> b' = b \<and> sessionOf (g, b) = None)
                    \<or> (\<exists>ses. sessionOf (g, b) = Some ses
                          \<and> ((e = SessionNotActive \<and> b' = b \<and> \<not> gs_active ses)
                             \<or> (e = ItemAlreadyUsed \<and> b' = b \<and> gs_active ses
                                 \<and> alreadyUsed (gs_usedItems ses) (trim inputValue))
                             \<or> (e = OracleTransient
                                 \<and> b' = b\<lparr>oracleCalls := oracleCalls b + 1\<rparr>
                                 \<and> gs_active ses
                                 \<and> \<not> alreadyUsed (gs_usedItems ses) (trim inputValue)
                                 \<and> storeGet (store b) (gs_currentItem ses) (trim inputValue)
                                     = None
                                 \<and> judge (gs_currentItem ses) (trim inputValue) = None)))))"
      using e kinds by blast
    have count1: "oracleCalls b' = oracleCalls b + 1 \<longleftrightarrow>
              requestSent eff
              \<and> fst (submitTurn judge b (sessionId g) (trim inputValue)) = Inl OracleTransient"
      using calls sent e(1) by auto
    have count0: "oracleCalls b' = oracleCalls b \<longleftrightarrow>
              \<not> requestSent eff
              \<or> fst (submitTurn judge b (sessionId g) (trim inputValue)) \<noteq> Inl OracleTransient"
      using calls sent e(1) by auto
    have old: "oracleCalls b' = oracleCalls b
            \<or> (oracleCalls b' = oracleCalls b + 1
                \<and> (\<exists>ses. sessionOf (g, b) = Some ses
                      \<and> judge (gs_currentItem ses) (trim inputValue) = None))"
      using calls by auto
    from sent have nosend: "\<not> requestSent eff \<longrightarrow> b' = b" by simp
    from g frame old used nosend detail count1 count0 show ?thesis by (intro conjI) simp_all
  qed
qed

text \<open>
  C4, as stated, fails when the oracle does not answer: the turn ends in the error
  \<open>OracleTransient\<close> and one oracle call has been made.
\<close>

theorem failed_turn_oracle_counterexample:
  "turnFailed (snd (handleSubmit silentJudge (js ''paper'') freshGame))
   \<and> fst (submitTurn silentJudge (snd freshGame) (sessionId (fst freshGame)) (js ''paper''))
       = Inl OracleTransient
   \<and> oracleCalls (snd freshGame) = 0
   \<and> oracleCalls (snd (fst (handleSubmit silentJudge (js ''paper'') freshGame))) = 1"
  by (simp add: scenario_eval silentJudge_def)

theorem failed_turn_changes_nothing_witness:
  "answer (snd (handleSubmit silentJudge (js ''paper'') freshGame)) = None
   \<and> fst (fst (handleSubmit silentJudge (js ''paper'') freshGame)) = fst freshGame
   \<and> sessions (snd (fst (handleSubmit silentJudge (js ''paper'') freshGame)))
       = sessions (snd freshGame)
   \<and> store (snd (fst (handleSubmit silentJudge (js ''paper'') freshGame)))
       = store (snd freshGame)
   \<and> oracleCalls (snd (fst (handleSubmit silentJudge (js ''paper'') freshGame)))
       = oracleCalls (snd freshGame) + 1
   \<and> answer (snd (handleSubmit scriptedJudge (js ''Rock'') freshGame)) = None
   \<and> map_option ce_code (failure (snd (handleSubmit scriptedJudge (js ''Rock'') freshGame)))
       = Some (Some (js ''ITEM_ALREADY_USED''))
   \<and> fst (handleSubmit scriptedJudge (js ''Rock'') freshGame) = freshGame
   \<and> snd (fst (handleSubmit silentJudge (js ''paper'') freshGame))
       = (snd freshGame)\<lparr>oracleCalls := oracleCalls (snd freshGame) + 1\<rparr>
   \<and> answer (snd (handleSubmit scriptedJudge (js ''<b>'') freshGame)) = None
   \<and> \<not> requestSent (snd (handleSubmit scriptedJudge (js ''<b>'') freshGame))
   \<and> fst (handleSubmit scriptedJudge (js ''<b>'') freshGame) = freshGame"
proof -
  have e1: "answer (snd (handleSubmit silentJudge (js ''paper'') freshGame)) = None"
    and e2: "answer (snd (handleSubmit scriptedJudge (js ''Rock'') freshGame)) = None"
    and e3: "map_option ce_code
        (failure (snd (handleSubmit scriptedJudge (js ''Rock'') freshGame)))
       = Some (Some (js ''ITEM_ALREADY_USED''))"
    and e4: "requestSent (snd (handleSubmit silentJudge (js ''paper'') freshGame))"
    and e5: "fst (submitTurn silentJudge (snd freshGame) (sessionId (fst freshGame))
                   (trim (js ''paper''))) = Inl OracleTransient"
    and e6: "answer (snd (handleSubmit scriptedJudge (js ''<b>'') freshGame)) = None"
    and e7: "\<not> requestSent (snd (handleSubmit scriptedJudge (js ''<b>'') freshGame))"
    by (simp_all add: scenario_eval silentJudge_def scriptedJudge_def)
  have r1: "handleSubmit silentJudge (js ''paper'') (fst freshGame, snd freshGame)
      = ((fst (fst (handleSubmit silentJudge (js ''paper'') freshGame)),
          snd (fst (handleSubmit silentJudge (js ''paper'') freshGame))),
         snd (handleSubmit silentJudge (js ''paper'') freshGame))"
    and r2: "handleSubmit scriptedJudge (js ''Rock'') (fst freshGame, snd freshGame)
      = ((fst (fst (handleSubmit scriptedJudge (js ''Rock'') freshGame)),
          snd (fst (handleSubmit scriptedJudge (js ''Rock'') freshGame))),
         snd (handleSubmit scriptedJudge (js ''Rock'') freshGame))"
    and r3: "handleSubmit scriptedJudge (js ''<b>'') (fst freshGame, snd freshGame)
      = ((fst (fst (handleSubmit scriptedJudge (js ''<b>'') freshGame)),
          snd (fst (handleSubmit scriptedJudge (js ''<b>'') freshGame))),
         snd (handleSubmit scriptedJudge (js ''<b>'') freshGame))"
    by simp_all
  note silent = failed_turn_changes_nothing [OF r1 e1]
  note reused = failed_turn_changes_nothing [OF r2 e2]
  note refused = failed_turn_changes_nothing [OF r3 e6]
  from silent have s1: "fst (fst (handleSubmit silentJudge (js ''paper'') freshGame)) = fst freshGame"
    and s2: "sessions (snd (fst (handleSubmit silentJudge (js ''paper'') freshGame)))
       = sessions (snd freshGame)"
    and s3: "store (snd (fst (handleSubmit silentJudge (js ''paper'') freshGame)))
       = store (snd freshGame)"
    by blast+
  from silent have "oracleCalls (snd (fst (handleSubmit silentJudge (js ''paper'') freshGame)))
       = oracleCalls (snd freshGame) + 1 \<longleftrightarrow>
       requestSent (snd (handleSubmit silentJudge (js ''paper'') freshGame))
       \<and> fst (submitTurn silentJudge (snd freshGame) (sessionId (fst freshGame))
                (trim (js ''paper''))) = Inl OracleTransient"
    by blast
  with e4 e5 have s4: "oracleCalls (snd (fst (handleSubmit silentJudge (js ''paper'') freshGame)))
       = oracleCalls (snd freshGame) + 1"
    by blast
  from reused have u1: "fst (fst (handleSubmit scriptedJudge (js ''Rock'') freshGame)) = fst freshGame"
    by blast
  from reused e3 have u2: "snd (fst (handleSubmit scriptedJudge (js ''Rock'') freshGame)) = snd freshGame"
    by blast
  from u1 u2 have u: "fst (handleSubmit scriptedJudge (js ''Rock'') freshGame) = freshGame"
    by (simp add: prod_eq_iff)
  from silent e4
  have "\<exists>e. submitTurn silentJudge (snd freshGame) (sessionId (fst freshGame))
               (trim (js ''paper''))
             = (Inl e, snd (fst (handleSubmit silentJudge (js ''paper'') freshGame)))
           \<and> (e = OracleTransient \<longrightarrow>
                 snd (fst (handleSubmit silentJudge (js ''paper'') freshGame))
                   = (snd freshGame)\<lparr>oracleCalls := oracleCalls (snd freshGame) + 1\<rparr>)"
    by blast
  with e5
  have s5: "snd (fst (handleSubmit silentJudge (js ''paper'') freshGame))
       = (snd freshGame)\<lparr>oracleCalls := oracleCalls (snd freshGame) + 1\<rparr>"
    by auto
  from refused have v1: "fst (fst (handleSubmit scriptedJudge (js ''<b>'') freshGame)) = fst freshGame"
    by blast
  from refused e7 have v2: "snd (fst (handleSubmit scriptedJudge (js ''<b>'') freshGame)) = snd freshGame"
    by blast
  from v1 v2 have v: "fst (handleSubmit scriptedJudge (js ''<b>'') freshGame) = freshGame"
    by (simp add: prod_eq_iff)
  from e1 s1 s2 s3 s4 e2 e3 u s5 e6 e7 v show ?thesis by blast
qed

section \<open>The end of a game\<close>

lemma submitTurn_answer:
  assumes t: "submitTurn judge b (Some sid) input = (Inr r, b')"
    and ses: "sessions b sid = Some ses"
  shows "gs_active ses
     \<and> ((cp_result r \<and> \<not> cp_game_over r \<and> cp_next_item r = input
          \<and> cp_score r = gs_score ses + 1
          \<and> sessions b' = (sessions b)(sid \<mapsto>
               ses\<lparr>gs_usedItems := gs_usedItems ses @ [input], gs_currentItem := input,
                   gs_score := gs_score ses + 1\<rparr>))
        \<or> (\<not> cp_result r \<and> cp_game_over r \<and> cp_score r = gs_score ses
            \<and> (\<exists>d. cp_end_game_data r = Some d \<and> eg_items_chain d = gs_usedItems ses
                   \<and> eg_final_score d = gs_score ses)
            \<and> sessions b' = (sessions b)(sid \<mapsto> ses\<lparr>gs_active := False\<rparr>)))"
proof -
  obtain res b1 where r: "resolve judge b (gs_currentItem ses) input = (res, b1)"
    by (cases "resolve judge b (gs_currentItem ses) input")
  from resolve_frame [of judge b "gs_currentItem ses" input] r
  have f: "sessions b1 = sessions b" by simp
  from t ses have a: "gs_active ses" "\<not> alreadyUsed (gs_usedItems ses) input"
    by (auto simp: submitTurn_def split: if_splits)
  show ?thesis
  proof (cases res)
    case (Inl e)
    with t ses a r show ?thesis by (simp add: submitTurn_def)
  next
    case (Inr v)
    with t ses a r f show ?thesis
      by (auto simp: submitTurn_def finalize_def finalData_def Let_def split: if_splits)
  qed
qed

lemma startGame_inSync: "inSync (fst (startGame (g, b)))"
  by (simp add: inSync_def startGame_def apiService_startGame_def orThrow_def startSession_def
      resetGameState_def newestWon_def Let_def)

lemma endSession_sessions:
  assumes "sessions b sid = Some ses"
  shows "\<exists>d. fst (endSession b (Some sid)) = Inr d \<and> eg_items_chain d = gs_usedItems ses
           \<and> sessions (snd (endSession b (Some sid))) sid = Some (ses\<lparr>gs_active := False\<rparr>)"
  using assms by (cases ses) (auto simp: endSession_def finalize_def finalData_def Let_def)

lemma endGame_client: "fst (fst (endGame d (g, b))) = g"
  by (simp add: endGame_def split: option.splits prod.splits sum.splits)

lemma endGame_inSync:
  assumes "inSync s"
  shows "inSync (fst (endGame d s))"
proof -
  obtain g b where s: "s = (g, b)" by (cases s)
  from assms s obtain sid ses where i: "sessionId g = Some sid" "sessions b sid = Some ses"
    "usedItems g = gs_usedItems ses" "currentItem g = gs_currentItem ses"
    "score g = gs_score ses" "gs_active ses \<longrightarrow> isActive g"
    "isActive g \<longrightarrow> newestWon (history g)"
    by (auto simp: inSync_def split: option.splits)
  show ?thesis
  proof (cases d)
    case (Some dd)
    with assms s show ?thesis by (simp add: endGame_def)
  next
    case None
    from endSession_sessions [OF i(2)] obtain e
      where e: "fst (endSession b (Some sid)) = Inr e"
        "sessions (snd (endSession b (Some sid))) sid = Some (ses\<lparr>gs_active := False\<rparr>)"
      by blast
    obtain x b1 where x: "endSession b (Some sid) = (x, b1)" by (cases "endSession b (Some sid)")
    with e have "x = Inr e" "sessions b1 sid = Some (ses\<lparr>gs_active := False\<rparr>)" by simp_all
    with None s i x show ?thesis
      by (simp add: endGame_def apiService_endGame_def orThrow_def inSync_def)
  qed
qed

lemma unanswered_sessions:
  assumes run: "handleSubmit judge inputValue (g, b) = ((g', b'), eff)"
    and err: "answer eff = None"
  shows "g' = g \<and> sessions b' = sessions b"
proof -
  from handleSubmit_unanswered [OF run err]
  have g: "g' = g"
    and c: "(\<not> requestSent eff \<and> b' = b)
            \<or> (\<exists>e. submitTurn judge b (sessionId g) (trim inputValue) = (Inl e, b')
                     \<and> eff = RequestFailed (handleError (errorReply e)))"
    by simp_all
  from c have "sessions b' = sessions b"
  proof
    assume "\<not> requestSent eff \<and> b' = b"
    then show ?thesis by simp
  next
    assume "\<exists>e. submitTurn judge b (sessionId g) (trim inputValue) = (Inl e, b')
                     \<and> eff = RequestFailed (handleError (errorReply e))"
    then obtain e where "submitTurn judge b (sessionId g) (trim inputValue) = (Inl e, b')"
      by blast
    from submitTurn_failure [OF this] show ?thesis by auto
  qed
  with g show ?thesis by simp
qed

lemma inSync_iff:
  "inSync (g, b) \<longleftrightarrow>
     (\<exists>sid ses. sessionId g = Some sid \<and> sessions b sid = Some ses
        \<and> usedItems g = gs_usedItems ses \<and> currentItem g = gs_currentItem ses
        \<and> score g = gs_score ses \<and> (gs_active ses \<longrightarrow> isActive g)
        \<and> (isActive g \<longrightarrow> newestWon (history g)))"
  by (auto simp: inSync_def split: option.splits)

lemma inSync_cong: "sessions b' = sessions b \<Longrightarrow> inSync (g, b') = inSync (g, b)"
  by (simp add: inSync_iff)

lemma handleSubmit_inSync:
  assumes "inSync s"
  shows "inSync (fst (handleSubmit judge inputValue s))"
proof -
  obtain g b where s: "s = (g, b)" by (cases s)
  from assms s obtain sid ses where i: "sessionId g = Some sid" "sessions b sid = Some ses"
    "usedItems g = gs_usedItems ses" "currentItem g = gs_currentItem ses"
    "score g = gs_score ses" "gs_active ses \<longrightarrow> isActive g"
    "isActive g \<longrightarrow> newestWon (history g)"
    by (auto simp: inSync_def split: option.splits)
  obtain g' b' eff where run: "handleSubmit judge inputValue (g, b) = ((g', b'), eff)"
    by (metis surj_pair)
  show ?thesis
  proof (cases "answer eff")
    case None
    from unanswered_sessions [OF run None] have "g' = g" "sessions b' = sessions b" by simp_all
    with inSync_cong [of b' b g] have "inSync (g', b') = inSync (g, b)" by simp
    with assms s run show ?thesis by simp
  next
    case (Some r)
    with run have a: "isActive g" "trim inputValue \<noteq> []"
      "submitTurn judge b (Some sid) (trim inputValue) = (Inr r, b')"
      "v_valid (validateUserInputBeforeSubmit (trim inputValue))"
      using i(1)
      by (auto simp: handleSubmit_def apiService_submitComparison_def orThrow_def Let_def
          split: if_splits prod.splits sum.splits)
    from a run i(1) have g': "g' =
        (if cp_game_over r
         then g\<lparr>lastComparison :=
                  Some \<lparr>lc_currentItem = currentItem g, lc_userInput = trim inputValue,
                        lc_result = cp_result r\<rparr>,
                history :=
                  \<lparr>hi_currentItem = currentItem g, hi_userInput = trim inputValue,
                   hi_result = cp_result r, hi_description = cp_description r,
                   hi_emoji = cp_emoji r, hi_count = cp_count r\<rparr> # history g,
                score := cp_score r, isActive := False\<rparr>
         else g\<lparr>lastComparison :=
                  Some \<lparr>lc_currentItem = currentItem g, lc_userInput = trim inputValue,
                        lc_result = cp_result r\<rparr>,
                history :=
                  \<lparr>hi_currentItem = currentItem g, hi_userInput = trim inputValue,
                   hi_result = cp_result r, hi_description = cp_description r,
                   hi_emoji = cp_emoji r, hi_count = cp_count r\<rparr> # history g,
                score := cp_score r, currentItem := cp_next_item r,
                usedItems := usedItems g @ [trim inputValue]\<rparr>)"
      by (auto simp: handleSubmit_def apiService_submitComparison_def orThrow_def Let_def
          split: if_splits)
    from submitTurn_answer [OF a(3) i(2)] g' i have "inSync (g', b')"
      by (auto simp: inSync_iff newestWon_def)
    with s run show ?thesis by simp
  qed
qed


lemma reachable_inSync: "gameReachable judge s \<Longrightarrow> inSync s"
  by (induction rule: gameReachable.induct)
    (simp_all add: startGame_inSync handleSubmit_inSync endGame_inSync)

lemma handleSubmit_lost:
  assumes run: "handleSubmit judge inputValue (g, b) = ((g', b'), eff)"
    and lost: "lostTurn eff"
  shows "\<exists>r. eff = Answered r \<and> \<not> cp_result r \<and> trim inputValue \<noteq> []
           \<and> submitTurn judge b (sessionId g) (trim inputValue) = (Inr r, b')
           \<and> history g' \<noteq> [] \<and> \<not> hi_result (hd (history g'))
           \<and> map_option lc_userInput (lastComparison g') = Some (trim inputValue)"
proof -
  from lost obtain r where r: "answer eff = Some r" "\<not> cp_result r"
    by (auto simp: lostTurn_def split: option.splits)
  from r(1) have e: "eff = Answered r" by (cases eff) simp_all
  from run e r(2) show ?thesis
    by (auto simp: handleSubmit_def apiService_submitComparison_def orThrow_def Let_def
        split: if_splits prod.splits sum.splits)
qed

lemma displayedChain_failure:
  assumes "history g \<noteq> []" "\<not> hi_result (hd (history g))"
    "map_option lc_userInput (lastComparison g) = Some u" "u \<noteq> []"
  shows "displayedChain g chain = chain @ [u]"
  using assms by (cases "history g") (auto simp: displayedChain_def split: option.splits)

lemma displayedChain_active:
  assumes "newestWon (history g)"
  shows "displayedChain g chain = chain"
  using assms by (cases "history g") (auto simp: displayedChain_def newestWon_def)

text \<open>
  C6. In every state a browser tab can reach there is a backend session whose used-items
  list the client mirrors. When a submitted candidate loses, game-over data arrive, and
  the chain that \<^verbatim>\<open>endGame\<close> displays for them is the session's used-items list with the
  losing input appended. When a session that is still active (in the backend, or in the
  client's view) is ended explicitly, by \<^verbatim>\<open>endGame\<close> without game-over data, the session
  becomes inactive and the chain displayed is the used-items list with nothing appended.
\<close>

theorem chain_for_display:
  assumes reach: "gameReachable judge (g, b)"
  shows "\<exists>ses. sessionOf (g, b) = Some ses \<and> usedItems g = gs_usedItems ses
           \<and> (\<forall>inputValue.
                 lostTurn (snd (handleSubmit judge inputValue (g, b))) \<longrightarrow>
                   scheduledEndGame (snd (handleSubmit judge inputValue (g, b))) \<noteq> None
                   \<and> chainAfterLoss judge inputValue (g, b)
                       = Some (gs_usedItems ses @ [trim inputValue]))
           \<and> (isActive g \<or> gs_active ses \<longrightarrow>
                 shownChain (snd (endGame None (g, b))) = Some (gs_usedItems ses)
                 \<and> map_option gs_active (sessionOf (fst (endGame None (g, b))))
                     = Some False)"
proof -
  from reachable_inSync [OF reach] obtain sid ses
    where i: "sessionId g = Some sid" "sessions b sid = Some ses"
      "usedItems g = gs_usedItems ses" "isActive g \<longrightarrow> newestWon (history g)"
      "gs_active ses \<longrightarrow> isActive g"
    by (auto simp: inSync_iff)
  from i have so: "sessionOf (g, b) = Some ses" by (simp add: sessionOf_def)
  have loss: "scheduledEndGame (snd (handleSubmit judge inputValue (g, b))) \<noteq> None
       \<and> chainAfterLoss judge inputValue (g, b) = Some (gs_usedItems ses @ [trim inputValue])"
    if l: "lostTurn (snd (handleSubmit judge inputValue (g, b)))" for inputValue
  proof -
    obtain g' b' eff where run: "handleSubmit judge inputValue (g, b) = ((g', b'), eff)"
      by (metis surj_pair)
    with l have "lostTurn eff" by simp
    from handleSubmit_lost [OF run this] obtain r
      where r: "eff = Answered r" "\<not> cp_result r" "trim inputValue \<noteq> []"
        "submitTurn judge b (sessionId g) (trim inputValue) = (Inr r, b')"
        "history g' \<noteq> []" "\<not> hi_result (hd (history g'))"
        "map_option lc_userInput (lastComparison g') = Some (trim inputValue)"
      by blast
    from r(4) i(1) have "submitTurn judge b (Some sid) (trim inputValue) = (Inr r, b')"
      by simp
    from submitTurn_answer [OF this i(2)] r(2) obtain d
      where d: "cp_game_over r" "cp_end_game_data r = Some d"
        "eg_items_chain d = gs_usedItems ses"
      by auto
    from d r(1) have sch: "scheduledEndGame eff = Some d" by simp
    from displayedChain_failure [OF r(5) r(6) r(7) r(3)] d(3)
    have "shownChain (snd (endGame (Some d) (g', b')))
        = Some (gs_usedItems ses @ [trim inputValue])"
      by (simp add: endGame_def)
    with run sch show ?thesis by (simp add: chainAfterLoss_def)
  qed
  have explicit: "shownChain (snd (endGame None (g, b))) = Some (gs_usedItems ses)
      \<and> map_option gs_active (sessionOf (fst (endGame None (g, b)))) = Some False"
    if a: "isActive g \<or> gs_active ses"
  proof -
    from a i(4) i(5) have w: "newestWon (history g)" by blast
    from endSession_sessions [OF i(2)] obtain d
      where d: "fst (endSession b (Some sid)) = Inr d" "eg_items_chain d = gs_usedItems ses"
        "sessions (snd (endSession b (Some sid))) sid = Some (ses\<lparr>gs_active := False\<rparr>)"
      by blast
    obtain x b1 where x: "endSession b (Some sid) = (x, b1)" by (cases "endSession b (Some sid)")
    with d have "x = Inr d" "sessions b1 sid = Some (ses\<lparr>gs_active := False\<rparr>)" by simp_all
    with x d(2) i(1) displayedChain_active [OF w] show ?thesis
      by (simp add: endGame_def apiService_endGame_def orThrow_def sessionOf_def)
  qed
  from so i(3) loss explicit show ?thesis by blast
qed

theorem chain_for_display_witness:
  "lostTurn (snd (handleSubmit scriptedJudge (js ''stone'') afterPaper))
   \<and> chainAfterLoss scriptedJudge (js ''stone'') afterPaper
       = Some [js ''rock'', js ''paper'', js ''stone'']
   \<and> isActive (fst afterPaper)
   \<and> shownChain (snd (endGame None afterPaper)) = Some [js ''rock'', js ''paper'']"
proof -
  have "gameReachable scriptedJudge afterPaper"
    unfolding afterPaper_def freshGame_def
    by (intro gameReachable.submitted gameReachable.started)
  then have reach: "gameReachable scriptedJudge (fst afterPaper, snd afterPaper)" by simp
  have e: "sessionOf (fst afterPaper, snd afterPaper) =
      Some \<lparr>gs_currentItem = js ''paper'', gs_score = 1,
            gs_usedItems = [js ''rock'', js ''paper''], gs_active = True\<rparr>"
    and l: "lostTurn (snd (handleSubmit scriptedJudge (js ''stone'') (fst afterPaper, snd afterPaper)))"
    and a: "isActive (fst afterPaper)"
    and t: "trim (js ''stone'') = js ''stone''"
    by (simp_all add: scenario_eval scriptedJudge_def afterPaper_def sessionOf_def lostTurn_def)
  from chain_for_display [OF reach] obtain ses
    where o: "sessionOf (fst afterPaper, snd afterPaper) = Some ses"
      and c: "\<forall>inputValue.
                 lostTurn (snd (handleSubmit scriptedJudge inputValue (fst afterPaper, snd afterPaper))) \<longrightarrow>
                   scheduledEndGame (snd (handleSubmit scriptedJudge inputValue (fst afterPaper, snd afterPaper))) \<noteq> None
                   \<and> chainAfterLoss scriptedJudge inputValue (fst afterPaper, snd afterPaper)
                       = Some (gs_usedItems ses @ [trim inputValue])"
      and x: "isActive (fst afterPaper) \<or> gs_active ses \<longrightarrow>
                 shownChain (snd (endGame None (fst afterPaper, snd afterPaper)))
                   = Some (gs_usedItems ses)
                 \<and> map_option gs_active
                     (sessionOf (fst (endGame None (fst afterPaper, snd afterPaper))))
                     = Some False"
    by blast
  from o e have s: "gs_usedItems ses = [js ''rock'', js ''paper'']" by simp
  from c [rule_format, OF l] x a s t l show ?thesis by simp
qed

section \<open>Moderation\<close>

lemma updateComparison_reports:
  "reports (snd (apiService_updateComparison b i1 i2 w1 w2 d e)) = reports b"
  by (simp add: apiService_updateComparison_def putComparison_def orThrow_def correctComparison_def storeCorrect_def Let_def)

lemma updateComparison_ok:
  assumes "w1 \<noteq> w2"
  shows "\<exists>r. apiService_updateComparison b i1 i2 w1 w2 d e =
           (Inr r, b\<lparr>store := (store b)(normalizePair i1 i2 \<mapsto> r)\<rparr>)
         \<and> r = \<lparr>cr_winner = normalizeItem (if w1 then i1 else i2), cr_description = d,
                 cr_emoji = e,
                 cr_usageCount =
                   (case store b (normalizePair i1 i2) of
                      None \<Rightarrow> 0 | Some old \<Rightarrow> cr_usageCount old),
                 cr_corrected = True\<rparr>"
  using assms
  by (simp add: apiService_updateComparison_def putComparison_def orThrow_def correctComparison_def storeCorrect_def Let_def)

lemma parse_reviewed: "parseStatus (js ''reviewed'') = Some Reviewed"
  by (simp add: parseStatus_def js_def)

lemma updateReportStatus_reviewed:
  assumes "reports b rid = Some rp"
  shows "apiService_updateReportStatus b rid (js ''reviewed'') =
           (Inr (rp\<lparr>rp_status := Reviewed\<rparr>),
            b\<lparr>reports := (reports b)(rid \<mapsto> rp\<lparr>rp_status := Reviewed\<rparr>)\<rparr>)"
  using assms
  by (simp add: apiService_updateReportStatus_def putReportStatus_def orThrow_def parse_reviewed setReportStatus_def Let_def)

lemma save_tied:
  assumes rid: "ec_reportId ecs = Some rid" "rid \<noteq> []" and filed: "reports b rid = Some rp"
    and res: "ef_result form = Some (js ''item1'') \<or> ef_result form = Some (js ''item2'')"
    and d: "ef_description form \<noteq> []" and e: "ef_emoji form \<noteq> []"
  shows "\<exists>b'. saveComparisonChanges form ecs b = (b', SaveSucceeded)
         \<and> store b' (normalizePair (ef_item1 form) (ef_item2 form)) =
             Some \<lparr>cr_winner =
                     normalizeItem (if ef_result form = Some (js ''item1'')
                                    then ef_item1 form else ef_item2 form),
                   cr_description = ef_description form, cr_emoji = ef_emoji form,
                   cr_usageCount =
                     (case store b (normalizePair (ef_item1 form) (ef_item2 form)) of
                        None \<Rightarrow> 0 | Some old \<Rightarrow> cr_usageCount old),
                   cr_corrected = True\<rparr>
         \<and> reports b' = (reports b)(rid \<mapsto> rp\<lparr>rp_status := Reviewed\<rparr>)"
proof -
  from res obtain result where r: "ef_result form = Some result"
    "result = js ''item1'' \<or> result = js ''item2''" by blast
  have ne: "js ''item1'' \<noteq> js ''item2''" by (simp add: js_def)
  from r(2) ne have w: "(result = js ''item1'') \<noteq> (result = js ''item2'')" by auto
  from updateComparison_ok [OF w, of b "ef_item1 form" "ef_item2 form" "ef_description form"
      "ef_emoji form"]
  obtain rec where u: "apiService_updateComparison b (ef_item1 form) (ef_item2 form)
        (result = js ''item1'') (result = js ''item2'') (ef_description form) (ef_emoji form)
      = (Inr rec, b\<lparr>store := (store b)(normalizePair (ef_item1 form) (ef_item2 form) \<mapsto> rec)\<rparr>)"
    "rec = \<lparr>cr_winner = normalizeItem (if result = js ''item1'' then ef_item1 form
                                       else ef_item2 form),
            cr_description = ef_description form, cr_emoji = ef_emoji form,
            cr_usageCount =
              (case store b (normalizePair (ef_item1 form) (ef_item2 form)) of
                 None \<Rightarrow> 0 | Some old \<Rightarrow> cr_usageCount old),
            cr_corrected = True\<rparr>"
    by blast
  let ?b1 = "b\<lparr>store := (store b)(normalizePair (ef_item1 form) (ef_item2 form) \<mapsto> rec)\<rparr>"
  from filed have "reports ?b1 rid = Some rp" by simp
  from updateReportStatus_reviewed [OF this]
  have s: "apiService_updateReportStatus ?b1 rid (js ''reviewed'') =
      (Inr (rp\<lparr>rp_status := Reviewed\<rparr>),
       ?b1\<lparr>reports := (reports ?b1)(rid \<mapsto> rp\<lparr>rp_status := Reviewed\<rparr>)\<rparr>)" .
  from r(1) d e u(1) s rid have "saveComparisonChanges form ecs b =
      (?b1\<lparr>reports := (reports ?b1)(rid \<mapsto> rp\<lparr>rp_status := Reviewed\<rparr>)\<rparr>, SaveSucceeded)"
    by (simp add: saveComparisonChanges_def truthy_def Let_def)
  with u(2) r(1) show ?thesis by simp
qed

lemma save_untied:
  assumes "ec_reportId ecs = None"
  shows "reports (fst (saveComparisonChanges form ecs b)) = reports b"
proof -
  have "reports (snd (apiService_updateComparison b i1 i2 w1 w2 d e)) = reports b"
    for i1 i2 w1 w2 d e by (rule updateComparison_reports)
  then have u: "apiService_updateComparison b i1 i2 w1 w2 d e = (x, b1) \<Longrightarrow> reports b1 = reports b"
    for i1 i2 w1 w2 d e x b1 by (metis snd_conv)
  from assms show ?thesis
    by (auto simp: saveComparisonChanges_def truthy_def Let_def dest: u
        split: option.splits prod.splits sum.splits)
qed

lemma saveApp_tied:
  assumes rid: "ec_reportId ecs = Some rid" "rid \<noteq> []" and filed: "reports b rid = Some rp"
    and res: "fa_item1Wins form \<noteq> fa_item2Wins form"
    and d: "trim (fa_description form) \<noteq> []" and e: "trim (fa_emoji form) \<noteq> []"
  shows "store (fst (saveComparisonChangesApp form ecs b))
             (normalizePair (fa_item1 form) (fa_item2 form)) =
             Some \<lparr>cr_winner =
                     normalizeItem (if fa_item1Wins form then fa_item1 form else fa_item2 form),
                   cr_description = trim (fa_description form),
                   cr_emoji = trim (fa_emoji form),
                   cr_usageCount =
                     (case store b (normalizePair (fa_item1 form) (fa_item2 form)) of
                        None \<Rightarrow> 0 | Some old \<Rightarrow> cr_usageCount old),
                   cr_corrected = True\<rparr>
         \<and> reports (fst (saveComparisonChangesApp form ecs b))
             = (reports b)(rid \<mapsto> rp\<lparr>rp_status := Reviewed\<rparr>)"
proof -
  from updateComparison_ok [OF res, of b "fa_item1 form" "fa_item2 form"
      "trim (fa_description form)" "trim (fa_emoji form)"]
  obtain rec where u: "apiService_updateComparison b (fa_item1 form) (fa_item2 form)
        (fa_item1Wins form) (fa_item2Wins form) (trim (fa_description form))
        (trim (fa_emoji form))
      = (Inr rec, b\<lparr>store := (store b)(normalizePair (fa_item1 form) (fa_item2 form) \<mapsto> rec)\<rparr>)"
    "rec = \<lparr>cr_winner = normalizeItem (if fa_item1Wins form then fa_item1 form
                                       else fa_item2 form),
            cr_description = trim (fa_description form), cr_emoji = trim (fa_emoji form),
            cr_usageCount =
              (case store b (normalizePair (fa_item1 form) (fa_item2 form)) of
                 None \<Rightarrow> 0 | Some old \<Rightarrow> cr_usageCount old),
            cr_corrected = True\<rparr>"
    by blast
  let ?b1 = "b\<lparr>store := (store b)(normalizePair (fa_item1 form) (fa_item2 form) \<mapsto> rec)\<rparr>"
  from filed have "reports ?b1 rid = Some rp" by simp
  from updateReportStatus_reviewed [OF this]
  have s: "apiService_updateReportStatus ?b1 rid (js ''reviewed'') =
      (Inr (rp\<lparr>rp_status := Reviewed\<rparr>),
       ?b1\<lparr>reports := (reports ?b1)(rid \<mapsto> rp\<lparr>rp_status := Reviewed\<rparr>)\<rparr>)" .
  from d e u(1) s rid have "fst (saveComparisonChangesApp form ecs b) =
      ?b1\<lparr>reports := (reports ?b1)(rid \<mapsto> rp\<lparr>rp_status := Reviewed\<rparr>)\<rparr>"
    by (simp add: saveComparisonChangesApp_def truthy_def Let_def)
  with u(2) show ?thesis by simp
qed

lemma saveApp_untied:
  assumes "ec_reportId ecs = None"
  shows "reports (fst (saveComparisonChangesApp form ecs b)) = reports b"
proof -
  have "reports (snd (apiService_updateComparison b i1 i2 w1 w2 d e)) = reports b"
    for i1 i2 w1 w2 d e by (rule updateComparison_reports)
  then have u: "apiService_updateComparison b i1 i2 w1 w2 d e = (x, b1) \<Longrightarrow> reports b1 = reports b"
    for i1 i2 w1 w2 d e x b1 by (metis snd_conv)
  from assms show ?thesis
    by (auto simp: saveComparisonChangesApp_def truthy_def Let_def dest: u
        split: option.splits prod.splits sum.splits)
qed


text \<open>
  C7. When an admin saves a comparison correction from the edit form that was opened from
  a filed report, with a winner chosen and a description and an emoji entered, the
  correction is applied to the comparison (winner, description and emoji overwritten, the
  corrected flag set, the usage count kept) and then that report's status is set to
  \<^verbatim>\<open>reviewed\<close>, no other report being touched. A save that is tied to no report leaves
  every report as it was. Both hold for the handler of admin.js and for the one of app.js.
\<close>

theorem correction_sets_report_reviewed:
  assumes opened: "ecs = fst (openEditComparisonModal report)"
    and rid: "rv_report_id report \<noteq> []"
    and filed: "reports b (rv_report_id report) = Some rp"
    and res: "ef_result form = Some (js ''item1'') \<or> ef_result form = Some (js ''item2'')"
    and d: "ef_description form \<noteq> []" and e: "ef_emoji form \<noteq> []"
  shows "(\<exists>b'. saveComparisonChanges form ecs b = (b', SaveSucceeded)
           \<and> store b' (normalizePair (ef_item1 form) (ef_item2 form)) =
               Some \<lparr>cr_winner =
                       normalizeItem (if ef_result form = Some (js ''item1'')
                                      then ef_item1 form else ef_item2 form),
                     cr_description = ef_description form, cr_emoji = ef_emoji form,
                     cr_usageCount =
                       (case store b (normalizePair (ef_item1 form) (ef_item2 form)) of
                          None \<Rightarrow> 0 | Some old \<Rightarrow> cr_usageCount old),
                     cr_corrected = True\<rparr>
           \<and> reports b' = (reports b)(rv_report_id report \<mapsto> rp\<lparr>rp_status := Reviewed\<rparr>))
         \<and> (ec_reportId ecs0 = None \<longrightarrow>
               reports (fst (saveComparisonChanges form0 ecs0 b0)) = reports b0)
         \<and> (fa_item1Wins formA \<noteq> fa_item2Wins formA \<and> trim (fa_description formA) \<noteq> []
              \<and> trim (fa_emoji formA) \<noteq> [] \<longrightarrow>
               reports (fst (saveComparisonChangesApp formA ecs b))
                 = (reports b)(rv_report_id report \<mapsto> rp\<lparr>rp_status := Reviewed\<rparr>)
               \<and> map_option cr_corrected
                   (store (fst (saveComparisonChangesApp formA ecs b))
                      (normalizePair (fa_item1 formA) (fa_item2 formA))) = Some True)
         \<and> (ec_reportId ecs0 = None \<longrightarrow>
               reports (fst (saveComparisonChangesApp formA0 ecs0 b0)) = reports b0)"
proof -
  from opened have r: "ec_reportId ecs = Some (rv_report_id report)"
    by (simp add: openEditComparisonModal_def)
  note tied = save_tied [OF r rid filed res d e]
  have app: "reports (fst (saveComparisonChangesApp formA ecs b))
                 = (reports b)(rv_report_id report \<mapsto> rp\<lparr>rp_status := Reviewed\<rparr>)
               \<and> map_option cr_corrected
                   (store (fst (saveComparisonChangesApp formA ecs b))
                      (normalizePair (fa_item1 formA) (fa_item2 formA))) = Some True"
    if "fa_item1Wins formA \<noteq> fa_item2Wins formA" "trim (fa_description formA) \<noteq> []"
      "trim (fa_emoji formA) \<noteq> []"
    using saveApp_tied [OF r rid filed that] by simp
  from tied app save_untied [of ecs0 form0 b0] saveApp_untied [of ecs0 formA0 b0]
  show ?thesis by blast
qed

theorem correction_sets_report_reviewed_witness:
  "snd (saveComparisonChanges lavaForm (fst (openEditComparisonModal lavaReportView))
          moderatedBackend) = SaveSucceeded
   \<and> map_option rp_status
       (reports (fst (saveComparisonChanges lavaForm
                        (fst (openEditComparisonModal lavaReportView)) moderatedBackend))
          (js ''r-1'')) = Some Reviewed
   \<and> map_option cr_winner
       (store (fst (saveComparisonChanges lavaForm
                      (fst (openEditComparisonModal lavaReportView)) moderatedBackend))
          (js ''lava'', js ''rock'')) = Some (js ''lava'')
   \<and> map_option cr_corrected
       (store (fst (saveComparisonChanges lavaForm
                      (fst (openEditComparisonModal lavaReportView)) moderatedBackend))
          (js ''lava'', js ''rock'')) = Some True"
proof -
  have h: "rv_report_id lavaReportView \<noteq> []"
    "rv_report_id lavaReportView = js ''r-1''"
    "reports moderatedBackend (rv_report_id lavaReportView) = Some lavaReport"
    "ef_result lavaForm = Some (js ''item1'') \<or> ef_result lavaForm = Some (js ''item2'')"
    "ef_description lavaForm \<noteq> []" "ef_emoji lavaForm \<noteq> []"
    "ef_result lavaForm \<noteq> Some (js ''item1'')"
    "normalizePair (ef_item1 lavaForm) (ef_item2 lavaForm) = (js ''lava'', js ''rock'')"
    "normalizeItem (ef_item2 lavaForm) = js ''lava''"
    by (simp_all add: lavaReportView_def moderatedBackend_def emptyBackend_def lavaForm_def
        openEditComparisonModal_def orDefault_def normalizePair_def normalizeItem_def
        string_eval)
  from correction_sets_report_reviewed [OF refl h(1) h(3) h(4) h(5) h(6)]
  obtain b' where b: "saveComparisonChanges lavaForm
        (fst (openEditComparisonModal lavaReportView)) moderatedBackend = (b', SaveSucceeded)"
      "store b' (normalizePair (ef_item1 lavaForm) (ef_item2 lavaForm)) =
               Some \<lparr>cr_winner =
                       normalizeItem (if ef_result lavaForm = Some (js ''item1'')
                                      then ef_item1 lavaForm else ef_item2 lavaForm),
                     cr_description = ef_description lavaForm, cr_emoji = ef_emoji lavaForm,
                     cr_usageCount =
                       (case store moderatedBackend
                               (normalizePair (ef_item1 lavaForm) (ef_item2 lavaForm)) of
                          None \<Rightarrow> 0 | Some old \<Rightarrow> cr_usageCount old),
                     cr_corrected = True\<rparr>"
      "reports b' = (reports moderatedBackend)
          (rv_report_id lavaReportView \<mapsto> lavaReport\<lparr>rp_status := Reviewed\<rparr>)"
    by blast
  from b h(2) h(7) h(8) h(9) show ?thesis by simp
qed

section \<open>Status filter\<close>

lemma joinComma_Cons: "joinComma (f # fs) = f @ concat (map ((#) 44) fs)"
  by (induction fs arbitrary: f) simp_all

lemma splitAt_nonempty: "splitAt d s \<noteq> []"
  by (induction s) (auto split: list.splits)

lemma splitAt_word: "d \<notin> set w \<Longrightarrow> splitAt d w = [w]"
  by (induction w) (auto split: list.splits)

lemma splitAt_append: "d \<notin> set w \<Longrightarrow> splitAt d (w @ d # rest) = w # splitAt d rest"
  by (induction w) (auto split: list.splits simp: splitAt_nonempty)

lemma split_join:
  "fs \<noteq> [] \<Longrightarrow> \<forall>f\<in>set fs. 44 \<notin> set f \<Longrightarrow> splitAt 44 (joinComma fs) = fs"
  by (induction fs rule: joinComma.induct) (simp_all add: splitAt_word splitAt_append)

lemma query_status:
  "ap_status (getAdminReports options) =
     (case ao_statusFilters options of
        None \<Rightarrow> None
      | Some [] \<Rightarrow> None
      | Some (f # fs) \<Rightarrow> Some (f @ concat (map ((#) 44) fs)))"
  by (simp add: getAdminReports_def joinComma_Cons split: option.splits list.splits)

lemma query_defaults:
  "getAdminReports noOptions =
     \<lparr>ap_page = 1, ap_page_size = 10, ap_sort_by = js ''created_at'',
      ap_sort_direction = js ''desc'', ap_status = None\<rparr>"
  by (simp add: getAdminReports_def noOptions_def numOrDefault_def orDefault_def)

lemma load_query:
  "snd (loadAdminReports reply st) =
     \<lparr>ap_page = (if ad_currentPage st = 0 then 1 else ad_currentPage st),
      ap_page_size = (if ad_pageSize st = 0 then 10 else ad_pageSize st),
      ap_sort_by = (if ad_sortBy st = [] then js ''created_at'' else ad_sortBy st),
      ap_sort_direction = (if ad_sortDirection st = [] then js ''desc'' else ad_sortDirection st),
      ap_status =
        (case ad_statusFilters st of
           [] \<Rightarrow> None
         | f # fs \<Rightarrow> Some (f @ concat (map ((#) 44) fs)))\<rparr>"
  by (simp add: load_request joinComma_Cons split: list.splits)

lemma load_statuses:
  assumes "\<forall>f\<in>set (ad_statusFilters st). 44 \<notin> set f"
  shows "statusesOfQuery (snd (loadAdminReports reply st)) = ad_statusFilters st"
  using assms split_join [of "ad_statusFilters st"]
  by (simp add: statusesOfQuery_def load_request)

lemma load_reports:
  assumes "\<forall>f\<in>set (ad_statusFilters st). 44 \<notin> set f"
  shows "reportsForQuery (snd (loadAdminReports reply st)) rs = listReports (ad_statusFilters st) rs"
  using load_statuses [OF assms, of reply]
  by (simp add: reportsForQuery_def statusesOfQuery_def)

lemma listReports_all: "listReports [] rs = rs"
  by (simp add: listReports_def)

lemma load_filters: "ad_statusFilters (fst (loadAdminReports reply st)) = ad_statusFilters st"
  by (simp add: load_state split: sum.splits)

lemma nav_filters:
  "ad_statusFilters (fst (navigateReportsPage direction reply st)) = ad_statusFilters st"
  using reports_cases [of direction reply st] by (auto simp: load_filters)

lemma selected_plain: "\<forall>f\<in>set (selectedStatuses cb). 44 \<notin> set f"
  by (simp add: selectedStatuses_def statusCheckboxes_def js_def)

lemma selected_empty:
  "selectedStatuses cb = [] \<longleftrightarrow>
     \<not> cb StatusPending \<and> \<not> cb StatusReviewed \<and> \<not> cb StatusApproved \<and> \<not> cb StatusRejected"
  by (simp add: selectedStatuses_def statusCheckboxes_def)

lemma load_again:
  "snd (loadAdminReports reply' (fst (loadAdminReports reply st))) =
     snd (loadAdminReports reply' st)"
  by (simp add: load_request load_state split: sum.splits)

lemma click_result:
  "\<exists>cb' st1. clickCheckbox target reply (cb, st) =
       ((cb', fst (loadAdminReports reply st1)), snd (loadAdminReports reply st1))
     \<and> ad_currentPage st1 = 1"
  apply (cases "target = StatusAll"; cases "cb target")
     apply (simp_all add: clickCheckbox_def handleStatusFilterChange_def Let_def case_prod_beta)
     apply (rule exI, rule conjI, rule refl, simp)+
  done

lemma click_request:
  "snd (clickCheckbox target reply cs) =
     snd (loadAdminReports reply (snd (fst (clickCheckbox target reply cs))))
   \<and> ap_page (snd (clickCheckbox target reply cs)) = 1"
proof -
  obtain cb st where cs: "cs = (cb, st)" by (cases cs)
  from click_result [of target reply cb st] obtain cb' st1
    where c: "clickCheckbox target reply (cb, st) =
       ((cb', fst (loadAdminReports reply st1)), snd (loadAdminReports reply st1))"
      and p: "ad_currentPage st1 = 1" by blast
  from p have "ap_page (snd (loadAdminReports reply st1)) = 1"
    by (simp add: load_request)
  with c cs show ?thesis by (simp add: load_again)
qed

lemma selected_without_all: "selectedStatuses (cb(StatusAll := x)) = selectedStatuses cb"
  by (simp add: selectedStatuses_def statusCheckboxes_def)

lemma selected_checked: "target \<noteq> StatusAll \<Longrightarrow> cb target \<Longrightarrow> selectedStatuses cb \<noteq> []"
  by (cases target) (simp_all add: selected_empty)

lemma click_all:
  "fst (clickCheckbox StatusAll reply (cb, st)) =
     (if \<not> cb StatusAll
      then ((\<lambda>c. c = StatusAll),
            fst (loadAdminReports reply (st\<lparr>ad_statusFilters := [], ad_currentPage := 1\<rparr>)))
      else (cb(StatusAll := False, StatusPending := True),
            fst (loadAdminReports reply
                  (st\<lparr>ad_statusFilters := [js ''pending''], ad_currentPage := 1\<rparr>))))"
  by (auto simp: clickCheckbox_def handleStatusFilterChange_def Let_def case_prod_beta
      fun_eq_iff)

lemma click_specific:
  assumes "target \<noteq> StatusAll"
  shows "fst (clickCheckbox target reply (cb, st)) =
     (if cb target
      then (if selectedStatuses (cb(target := False)) = []
            then (cb(target := False, StatusAll := True),
                  fst (loadAdminReports reply (st\<lparr>ad_statusFilters := [], ad_currentPage := 1\<rparr>)))
            else (cb(target := False),
                  fst (loadAdminReports reply
                        (st\<lparr>ad_statusFilters := selectedStatuses (cb(target := False)),
                            ad_currentPage := 1\<rparr>))))
      else (cb(target := True, StatusAll := False),
            fst (loadAdminReports reply
                  (st\<lparr>ad_statusFilters := selectedStatuses (cb(target := True)),
                      ad_currentPage := 1\<rparr>))))"
proof -
  have sel: "\<And>c. map checkboxValue (filter (\<lambda>x. c x \<and> x \<noteq> StatusAll) statusCheckboxes)
              = selectedStatuses c"
    by (simp add: selectedStatuses_def)
  have on: "selectedStatuses (cb(target := True)) \<noteq> []"
    using assms selected_checked [of target "cb(target := True)"] by simp
  from assms on show ?thesis
    by (simp add: clickCheckbox_def handleStatusFilterChange_def Let_def case_prod_beta sel
        selected_without_all)
qed

lemma click_filterInv:
  assumes "filterInv cs"
  shows "filterInv (fst (clickCheckbox target reply cs))"
proof -
  obtain cb st where cs: "cs = (cb, st)" by (cases cs)
  from assms cs have filters: "ad_statusFilters st = selectedStatuses cb"
    and allBox: "cb StatusAll \<longleftrightarrow> selectedStatuses cb = []"
    by (simp_all add: filterInv_def)
  show ?thesis
  proof (cases "target = StatusAll")
    case True
    have none: "selectedStatuses (\<lambda>c. c = StatusAll) = []"
      by (simp add: selected_empty)
    have one: "selectedStatuses (cb(StatusAll := False, StatusPending := True)) = [js ''pending'']"
      if "cb StatusAll"
      using that allBox
      by (simp add: selected_empty) (simp add: selectedStatuses_def statusCheckboxes_def)
    from True cs none one show ?thesis
      by (simp add: click_all filterInv_def load_filters)
  next
    case False
    have on: "selectedStatuses (cb(target := True)) \<noteq> []"
      using False selected_checked [of target "cb(target := True)"] by simp
    have off: "\<not> cb StatusAll" if "cb target"
      using that False selected_checked [of target cb] allBox by simp
    from False cs on off show ?thesis
      by (simp add: click_specific filterInv_def load_filters selected_without_all)
  qed
qed

lemma initial_filterInv: "filterInv (initialChecked, initialAdminState)"
  by (simp add: filterInv_def initialChecked_def initialAdminState_def selectedStatuses_def
      statusCheckboxes_def)

lemma reachable_filterInv: "filterReachable cs \<Longrightarrow> filterInv cs"
proof (induction rule: filterReachable.induct)
  case loaded
  show ?case by (rule initial_filterInv)
next
  case (listed cb st reply)
  then show ?case by (simp add: filterInv_def load_filters)
next
  case (paged cb st direction reply)
  then show ?case by (simp add: filterInv_def nav_filters)
next
  case (clicked cs target reply)
  from clicked.IH show ?case by (rule click_filterInv)
qed

text \<open>
  C8. The query of every listing request has a \<^verbatim>\<open>status\<close> parameter exactly when the
  status filter list is given and non-empty, and the parameter is then the statuses of
  the list, in order, with a comma between them. The request that \<^verbatim>\<open>loadAdminReports\<close>
  issues is built from the admin state alone: the page, the page size and the sort
  order with their defaults, and the filter list in that way; read back at the commas,
  the query names the statuses of the filter list, and the reports it selects are the
  reports of those statuses: all reports when the list is empty. After any click on a
  filter check box, in any state the dashboard can be in and whatever the server
  replies, the filter list is the list of the checked statuses, it is empty if and only
  if \<^verbatim>\<open>All\<close> is checked, and the listing has been requested anew, from the first page,
  for exactly the checked statuses.
\<close>

theorem status_filter_in_query:
  "ap_status (getAdminReports options) =
     (case ao_statusFilters options of
        None \<Rightarrow> None
      | Some [] \<Rightarrow> None
      | Some (f # fs) \<Rightarrow> Some (f @ concat (map ((#) 44) fs)))
   \<and> (ap_status (getAdminReports options) \<noteq> None \<longleftrightarrow>
        (case ao_statusFilters options of None \<Rightarrow> False | Some fs \<Rightarrow> fs \<noteq> []))
   \<and> snd (loadAdminReports reply st) =
        \<lparr>ap_page = (if ad_currentPage st = 0 then 1 else ad_currentPage st),
         ap_page_size = (if ad_pageSize st = 0 then 10 else ad_pageSize st),
         ap_sort_by = (if ad_sortBy st = [] then js ''created_at'' else ad_sortBy st),
         ap_sort_direction =
           (if ad_sortDirection st = [] then js ''desc'' else ad_sortDirection st),
         ap_status =
           (case ad_statusFilters st of
              [] \<Rightarrow> None
            | f # fs \<Rightarrow> Some (f @ concat (map ((#) 44) fs)))\<rparr>
   \<and> (ap_status (snd (loadAdminReports reply st)) \<noteq> None \<longleftrightarrow> ad_statusFilters st \<noteq> [])
   \<and> ((\<forall>f\<in>set (ad_statusFilters st). 44 \<notin> set f) \<longrightarrow>
        statusesOfQuery (snd (loadAdminReports reply st)) = ad_statusFilters st
        \<and> reportsForQuery (snd (loadAdminReports reply st)) rs
            = listReports (ad_statusFilters st) rs)
   \<and> (ad_statusFilters st = [] \<longrightarrow> reportsForQuery (snd (loadAdminReports reply st)) rs = rs)
   \<and> (filterReachable cs \<longrightarrow>
        (ad_statusFilters (snd (fst (clickCheckbox target reply cs))) = []
           \<longleftrightarrow> fst (fst (clickCheckbox target reply cs)) StatusAll)
        \<and> ad_statusFilters (snd (fst (clickCheckbox target reply cs)))
            = selectedStatuses (fst (fst (clickCheckbox target reply cs)))
        \<and> snd (clickCheckbox target reply cs)
            = snd (loadAdminReports reply (snd (fst (clickCheckbox target reply cs))))
        \<and> ap_page (snd (clickCheckbox target reply cs)) = 1
        \<and> ap_status (snd (clickCheckbox target reply cs)) =
            (case selectedStatuses (fst (fst (clickCheckbox target reply cs))) of
               [] \<Rightarrow> None
             | f # fs \<Rightarrow> Some (f @ concat (map ((#) 44) fs)))
        \<and> statusesOfQuery (snd (clickCheckbox target reply cs))
            = selectedStatuses (fst (fst (clickCheckbox target reply cs)))
        \<and> reportsForQuery (snd (clickCheckbox target reply cs)) rs
            = listReports (selectedStatuses (fst (fst (clickCheckbox target reply cs)))) rs
        \<and> (fst (fst (clickCheckbox target reply cs)) StatusAll
             \<longrightarrow> reportsForQuery (snd (clickCheckbox target reply cs)) rs = rs))"
proof -
  have a: "ap_status (getAdminReports options) =
     (case ao_statusFilters options of
        None \<Rightarrow> None
      | Some [] \<Rightarrow> None
      | Some (f # fs) \<Rightarrow> Some (f @ concat (map ((#) 44) fs)))"
    by (rule query_status)
  have b: "ap_status (getAdminReports options) \<noteq> None \<longleftrightarrow>
        (case ao_statusFilters options of None \<Rightarrow> False | Some fs \<Rightarrow> fs \<noteq> [])"
    by (simp add: query_status split: option.splits list.splits)
  have c: "snd (loadAdminReports reply st) =
        \<lparr>ap_page = (if ad_currentPage st = 0 then 1 else ad_currentPage st),
         ap_page_size = (if ad_pageSize st = 0 then 10 else ad_pageSize st),
         ap_sort_by = (if ad_sortBy st = [] then js ''created_at'' else ad_sortBy st),
         ap_sort_direction =
           (if ad_sortDirection st = [] then js ''desc'' else ad_sortDirection st),
         ap_status =
           (case ad_statusFilters st of
              [] \<Rightarrow> None
            | f # fs \<Rightarrow> Some (f @ concat (map ((#) 44) fs)))\<rparr>"
    by (rule load_query)
  have d: "ap_status (snd (loadAdminReports reply st)) \<noteq> None \<longleftrightarrow> ad_statusFilters st \<noteq> []"
    by (simp add: load_request)
  have e: "(\<forall>f\<in>set (ad_statusFilters st). 44 \<notin> set f) \<longrightarrow>
        statusesOfQuery (snd (loadAdminReports reply st)) = ad_statusFilters st
        \<and> reportsForQuery (snd (loadAdminReports reply st)) rs
            = listReports (ad_statusFilters st) rs"
    using load_statuses load_reports by blast
  have f: "ad_statusFilters st = [] \<longrightarrow> reportsForQuery (snd (loadAdminReports reply st)) rs = rs"
    using load_reports [of st reply rs] by (auto simp: listReports_all)
  have g: "(ad_statusFilters (snd (fst (clickCheckbox target reply cs))) = []
           \<longleftrightarrow> fst (fst (clickCheckbox target reply cs)) StatusAll)
        \<and> ad_statusFilters (snd (fst (clickCheckbox target reply cs)))
            = selectedStatuses (fst (fst (clickCheckbox target reply cs)))
        \<and> snd (clickCheckbox target reply cs)
            = snd (loadAdminReports reply (snd (fst (clickCheckbox target reply cs))))
        \<and> ap_page (snd (clickCheckbox target reply cs)) = 1
        \<and> ap_status (snd (clickCheckbox target reply cs)) =
            (case selectedStatuses (fst (fst (clickCheckbox target reply cs))) of
               [] \<Rightarrow> None
             | f # fs \<Rightarrow> Some (f @ concat (map ((#) 44) fs)))
        \<and> statusesOfQuery (snd (clickCheckbox target reply cs))
            = selectedStatuses (fst (fst (clickCheckbox target reply cs)))
        \<and> reportsForQuery (snd (clickCheckbox target reply cs)) rs
            = listReports (selectedStatuses (fst (fst (clickCheckbox target reply cs)))) rs
        \<and> (fst (fst (clickCheckbox target reply cs)) StatusAll
             \<longrightarrow> reportsForQuery (snd (clickCheckbox target reply cs)) rs = rs)"
    if reach: "filterReachable cs"
  proof -
    obtain cb' st' q where click: "clickCheckbox target reply cs = ((cb', st'), q)"
      by (metis surj_pair)
    from reach have "filterInv (fst (clickCheckbox target reply cs))"
      by (intro click_filterInv reachable_filterInv)
    with click have filters: "ad_statusFilters st' = selectedStatuses cb'"
      and allBox: "cb' StatusAll \<longleftrightarrow> selectedStatuses cb' = []"
      by (simp_all add: filterInv_def)
    from click_request [of target reply cs, unfolded click]
    have q: "q = snd (loadAdminReports reply st')" and page: "ap_page q = 1"
      by auto
    have plain: "\<forall>f\<in>set (ad_statusFilters st'). 44 \<notin> set f"
      unfolding filters by (rule selected_plain)
    have status: "ap_status q =
        (case selectedStatuses cb' of
           [] \<Rightarrow> None
         | f # fs \<Rightarrow> Some (f @ concat (map ((#) 44) fs)))"
      unfolding q by (simp add: load_query filters)
    have names: "statusesOfQuery q = selectedStatuses cb'"
      unfolding q using load_statuses [OF plain, of reply] by (simp add: filters)
    have selects: "reportsForQuery q rs = listReports (selectedStatuses cb') rs"
      unfolding q using load_reports [OF plain, of reply rs] by (simp add: filters)
    have everything: "cb' StatusAll \<longrightarrow> reportsForQuery q rs = rs"
      using selects allBox by (simp add: listReports_all)
    from filters allBox q page status names selects everything show ?thesis
      unfolding click by simp
  qed
  from a b c d e f g show ?thesis by blast
qed

theorem status_filter_in_query_witness:
  "ad_statusFilters (snd pendingAndApproved) = [js ''pending'', js ''approved'']
   \<and> \<not> fst pendingAndApproved StatusAll
   \<and> ap_status (snd (clickCheckbox StatusApproved (listing 1) pendingOnly))
       = Some (js ''pending,approved'')
   \<and> statusesOfQuery (snd (clickCheckbox StatusApproved (listing 1) pendingOnly))
       = [js ''pending'', js ''approved'']
   \<and> ad_statusFilters (snd backToAll) = []
   \<and> fst backToAll StatusAll
   \<and> ap_status (snd (clickCheckbox StatusPending (listing 1) pendingOnly)) = None
   \<and> reportsForQuery (snd (clickCheckbox StatusPending (listing 1) pendingOnly)) [lavaReport]
       = [lavaReport]
   \<and> statusesOfQuery (snd (loadAdminReports (listing 1) (snd pendingAndApproved)))
       = [js ''pending'', js ''approved'']
   \<and> reportsForQuery (snd (loadAdminReports (listing 1) (snd backToAll))) [lavaReport]
       = [lavaReport]
   \<and> ap_status (getAdminReports noOptions) = None"
proof -
  have r0: "filterReachable (initialChecked, initialAdminState)"
    by (rule filterReachable.loaded)
  then have r1: "filterReachable pendingOnly"
    unfolding pendingOnly_def by (rule filterReachable.clicked)
  have p1: "fst pendingOnly = initialChecked(StatusPending := True, StatusAll := False)"
    by (simp add: pendingOnly_def click_specific initialChecked_def)
  have "fst pendingAndApproved =
          fst (fst (clickCheckbox StatusApproved (listing 1) (fst pendingOnly, snd pendingOnly)))"
    by (simp add: pendingAndApproved_def)
  then have two: "selectedStatuses (fst pendingAndApproved) = [js ''pending'', js ''approved'']"
    by (simp add: click_specific p1 initialChecked_def selectedStatuses_def
        statusCheckboxes_def)
  have "fst backToAll =
          fst (fst (clickCheckbox StatusPending (listing 1) (fst pendingOnly, snd pendingOnly)))"
    by (simp add: backToAll_def)
  then have none: "selectedStatuses (fst backToAll) = []"
    by (simp add: click_specific p1 initialChecked_def selectedStatuses_def
        statusCheckboxes_def)
  have joined: "js ''pending'' @ concat (map ((#) 44) [js ''approved'']) = js ''pending,approved''"
    by (simp add: js_def)
  note approved =
    status_filter_in_query [of noOptions "listing 1" "snd pendingAndApproved" "[lavaReport]"
      pendingOnly StatusApproved, folded pendingAndApproved_def]
  note cleared =
    status_filter_in_query [of noOptions "listing 1" "snd backToAll" "[lavaReport]"
      pendingOnly StatusPending, folded backToAll_def]
  from approved r1
  have a1: "ad_statusFilters (snd pendingAndApproved) = selectedStatuses (fst pendingAndApproved)"
    and a2: "ad_statusFilters (snd pendingAndApproved) = [] \<longleftrightarrow> fst pendingAndApproved StatusAll"
    and a3: "ap_status (snd (clickCheckbox StatusApproved (listing 1) pendingOnly)) =
              (case selectedStatuses (fst pendingAndApproved) of
                 [] \<Rightarrow> None
               | f # fs \<Rightarrow> Some (f @ concat (map ((#) 44) fs)))"
    and a4: "statusesOfQuery (snd (clickCheckbox StatusApproved (listing 1) pendingOnly))
              = selectedStatuses (fst pendingAndApproved)"
    by blast+
  from a1 a2 a3 a4 two joined
  have a: "ad_statusFilters (snd pendingAndApproved) = [js ''pending'', js ''approved'']"
    "\<not> fst pendingAndApproved StatusAll"
    "ap_status (snd (clickCheckbox StatusApproved (listing 1) pendingOnly))
       = Some (js ''pending,approved'')"
    "statusesOfQuery (snd (clickCheckbox StatusApproved (listing 1) pendingOnly))
       = [js ''pending'', js ''approved'']"
    by auto
  from cleared r1
  have b1: "ad_statusFilters (snd backToAll) = selectedStatuses (fst backToAll)"
    and b2: "ad_statusFilters (snd backToAll) = [] \<longleftrightarrow> fst backToAll StatusAll"
    and b3: "ap_status (snd (clickCheckbox StatusPending (listing 1) pendingOnly)) =
              (case selectedStatuses (fst backToAll) of
                 [] \<Rightarrow> None
               | f # fs \<Rightarrow> Some (f @ concat (map ((#) 44) fs)))"
    by blast+
  from b1 b2 b3 none
  have b: "ad_statusFilters (snd backToAll) = []"
    "fst backToAll StatusAll"
    "ap_status (snd (clickCheckbox StatusPending (listing 1) pendingOnly)) = None"
    by auto
  from approved have "ap_status (getAdminReports noOptions) =
     (case ao_statusFilters noOptions of
        None \<Rightarrow> None
      | Some [] \<Rightarrow> None
      | Some (f # fs) \<Rightarrow> Some (f @ concat (map ((#) 44) fs)))"
    by blast
  then have c: "ap_status (getAdminReports noOptions) = None"
    by (simp add: noOptions_def)
  from cleared r1 b(2)
  have b4: "reportsForQuery (snd (clickCheckbox StatusPending (listing 1) pendingOnly))
              [lavaReport] = [lavaReport]"
    by blast
  have plain: "\<forall>f\<in>set (ad_statusFilters (snd pendingAndApproved)). 44 \<notin> set f"
    by (simp add: a(1) js_def)
  from approved plain
  have "statusesOfQuery (snd (loadAdminReports (listing 1) (snd pendingAndApproved)))
          = ad_statusFilters (snd pendingAndApproved)"
    by blast
  with a(1)
  have a5: "statusesOfQuery (snd (loadAdminReports (listing 1) (snd pendingAndApproved)))
              = [js ''pending'', js ''approved'']"
    by simp
  from cleared b(1)
  have b5: "reportsForQuery (snd (loadAdminReports (listing 1) (snd backToAll))) [lavaReport]
              = [lavaReport]"
    by blast
  from a b b4 a5 b5 c show ?thesis by simp
qed

end
